theory Spec2Isabelle
  imports Main
begin

text \<open>
  A model of \<^verbatim>\<open>create_vulkan_wrapper.py\<close>, the generator of a \<^verbatim>\<open>ctypes\<close> wrapper from the
  Vulkan registry \<^verbatim>\<open>vk.xml\<close>. The parsed document is a tree of elements; every stage of
  \<^verbatim>\<open>export\<close> is a function from the document, and from the effects so far where it reads
  the global lists, to the effects it adds and the exception that ends it, if one is
  raised. The semantics is that of Python 3: strings are \<^verbatim>\<open>str\<close>, a \<^verbatim>\<open>dict\<close> iterates in
  insertion order, and an element without children is falsy.
\<close>

section \<open>Python strings\<close>

text \<open>
  Python \<^verbatim>\<open>str\<close> values are modelled as \<^typ>\<open>string\<close> (the UTF-8 bytes of the text).
  Every test the generator makes on characters (\<^verbatim>\<open>[A-Z]\<close>, the prefixes, the brackets)
  is on ASCII characters, which are single bytes.
\<close>

definition startswith :: "string \<Rightarrow> string \<Rightarrow> bool" where
  "startswith s p \<longleftrightarrow> take (length p) s = p"

definition endswith :: "string \<Rightarrow> string \<Rightarrow> bool" where
  "endswith s p \<longleftrightarrow> length p \<le> length s \<and> drop (length s - length p) s = p"

text \<open>
  \<^verbatim>\<open>s.replace(old, new)\<close> for a non-empty \<^verbatim>\<open>old\<close> (every call of the generator passes
  a non-empty literal): all non-overlapping occurrences, leftmost first. The counter is
  the number of characters of a matched occurrence that are still to be skipped.
\<close>

fun replace_from :: "string \<Rightarrow> string \<Rightarrow> nat \<Rightarrow> string \<Rightarrow> string" where
  "replace_from old new k [] = []"
| "replace_from old new (Suc k) (c # cs) = replace_from old new k cs"
| "replace_from old new 0 (c # cs) =
     (if startswith (c # cs) old then new @ replace_from old new (length old - 1) cs
      else c # replace_from old new 0 cs)"

definition replace :: "string \<Rightarrow> string \<Rightarrow> string \<Rightarrow> string" where
  "replace s old new = replace_from old new 0 s"

text \<open>\<^verbatim>\<open>s.strip(chars)\<close> and \<^verbatim>\<open>s.lstrip()\<close>, \<^verbatim>\<open>s.strip()\<close> on ASCII white space.\<close>

definition strip_chars :: "string \<Rightarrow> string \<Rightarrow> string" where
  "strip_chars s cs =
     rev (dropWhile (\<lambda>c. c \<in> set cs) (rev (dropWhile (\<lambda>c. c \<in> set cs) s)))"

definition whitespace :: string where
  "whitespace = [CHR 0x20, CHR 0x09, CHR 0x0A, CHR 0x0B, CHR 0x0C, CHR 0x0D,
                 CHR 0x1C, CHR 0x1D, CHR 0x1E, CHR 0x1F]"

definition strip :: "string \<Rightarrow> string" where
  "strip s = strip_chars s whitespace"

definition upper_letters :: string where
  "upper_letters = ''ABCDEFGHIJKLMNOPQRSTUVWXYZ''"

definition lower_letters :: string where
  "lower_letters = ''abcdefghijklmnopqrstuvwxyz''"

definition is_upper :: "char \<Rightarrow> bool" where
  "is_upper c \<longleftrightarrow> c \<in> set upper_letters"

definition lower :: "char \<Rightarrow> char" where
  "lower c = (case map_of (zip upper_letters lower_letters) c of Some d \<Rightarrow> d | None \<Rightarrow> c)"

text \<open>
  \<^verbatim>\<open>str(n)\<close> and \<^verbatim>\<open>int(s)\<close> for decimal integers. \<^verbatim>\<open>int\<close> accepts surrounding white
  space, one sign and ASCII digits with single underscores between digits; anything
  else is a \<^verbatim>\<open>ValueError\<close>, and \<^verbatim>\<open>int(None)\<close> is a \<^verbatim>\<open>TypeError\<close>.
\<close>

datatype error = AttributeError | TypeError | ValueError | IndexError | StopIteration

definition digit_chars :: string where
  "digit_chars = ''0123456789''"

definition digit_of :: "char \<Rightarrow> int option" where
  "digit_of c = map_of (zip digit_chars [0, 1, 2, 3, 4, 5, 6, 7, 8, 9]) c"

function str_digits :: "int \<Rightarrow> string" where
  "str_digits n =
     (if n < 10 then [digit_chars ! nat n]
      else str_digits (n div 10) @ [digit_chars ! nat (n mod 10)])"
  by pat_completeness auto
termination
  by (relation "measure nat") auto

declare str_digits.simps [simp del]

definition str_int :: "int \<Rightarrow> string" where
  "str_int i = (if i < 0 then CHR ''-'' # str_digits (- i) else str_digits i)"

fun digits_value :: "int \<Rightarrow> string \<Rightarrow> int option" where
  "digits_value acc [] = Some acc"
| "digits_value acc (c # cs) =
     (case digit_of c of
        Some d \<Rightarrow> digits_value (10 * acc + d) cs
      | None \<Rightarrow>
          (if c = CHR ''_'' then
             (case cs of
                [] \<Rightarrow> None
              | c' # cs' \<Rightarrow> (if digit_of c' = None then None else digits_value acc cs))
           else None))"

definition unsigned_value :: "string \<Rightarrow> int option" where
  "unsigned_value s =
     (case s of [] \<Rightarrow> None
      | c # cs \<Rightarrow> (if digit_of c = None then None else digits_value 0 s))"

definition py_int :: "string option \<Rightarrow> error + int" where
  "py_int v =
     (case v of
        None \<Rightarrow> Inl TypeError
      | Some s \<Rightarrow>
          (case strip s of
             [] \<Rightarrow> Inl ValueError
           | c # cs \<Rightarrow>
               (if c = CHR ''-'' then
                  (case unsigned_value cs of None \<Rightarrow> Inl ValueError | Some n \<Rightarrow> Inr (- n))
                else if c = CHR ''+'' then
                  (case unsigned_value cs of None \<Rightarrow> Inl ValueError | Some n \<Rightarrow> Inr n)
                else
                  (case unsigned_value (c # cs) of None \<Rightarrow> Inl ValueError | Some n \<Rightarrow> Inr n))))"

section \<open>The parsed document\<close>

text \<open>
  An \<^verbatim>\<open>xml.etree.ElementTree.Element\<close>: tag, attributes, text, tail and children.
  \<^verbatim>\<open>get\<close> reads an attribute (\<^verbatim>\<open>None\<close> when absent), \<^verbatim>\<open>find\<close> returns the first child with
  a tag, \<^verbatim>\<open>iter\<close> walks the element and all its descendants in document order.
\<close>

datatype elem =
  Elem (etag: string) (eattrib: "(string \<times> string) list") (etext: "string option")
       (etail: "string option") (echildren: "elem list")

definition elem_get :: "elem \<Rightarrow> string \<Rightarrow> string option" where
  "elem_get e k = map_of (eattrib e) k"

definition elem_find :: "elem \<Rightarrow> string \<Rightarrow> elem option" where
  "elem_find e t = find (\<lambda>c. etag c = t) (echildren e)"

fun elem_iter :: "string \<Rightarrow> elem \<Rightarrow> elem list" where
  "elem_iter t (Elem g a x l cs) =
     (if g = t then [Elem g a x l cs] else []) @ concat (map (elem_iter t) cs)"

section \<open>Utility functions\<close>

text \<open>
  \<^verbatim>\<open>re.sub('[^A-Z]([A-Z])[^A-Z]|[^A-Z]([A-Z])', lower, name)\<close>: at each position the
  three-character alternative is tried first, then the two-character one; a match is
  replaced and the scan resumes behind it.
\<close>

fun to_snake_case :: "string \<Rightarrow> string" where
  "to_snake_case (a # b # c # s) =
     (if \<not> is_upper a \<and> is_upper b \<and> \<not> is_upper c
        then [a, CHR ''_'', lower b, c] @ to_snake_case s
      else if \<not> is_upper a \<and> is_upper b
        then [a, CHR ''_'', b] @ to_snake_case (c # s)
      else a # to_snake_case (b # c # s))"
| "to_snake_case [a, b] =
     (if \<not> is_upper a \<and> is_upper b then [a, CHR ''_'', b] else [a, b])"
| "to_snake_case s = s"

definition TYPES_SUFFIX :: "(string \<times> string) list" where
  "TYPES_SUFFIX = [(''U'', ''c_uint''), (''ULL'', ''c_uint64''), (''f'', ''c_float'')]"

definition TYPES_MAP :: "(string \<times> string) list" where
  "TYPES_MAP =
     [(''void'', ''None''), (''void*'', ''c_void_p''), (''float'', ''c_float''),
      (''uint8_t'', ''c_uint8''), (''uint32_t'', ''c_uint''), (''uint64_t'', ''c_uint64''),
      (''int32_t'', ''c_int''), (''size_t'', ''c_size_t''), (''char'', ''c_char''),
      (''char*'', ''c_char_p'')]"

text \<open>
  \<^verbatim>\<open>pythonize_value\<close>, over the items of a suffix table in the order given: the first
  suffix the stripped value ends with is cut off and the value wrapped in its type.
\<close>

fun pythonize_suffixes :: "(string \<times> string) list \<Rightarrow> string \<Rightarrow> string" where
  "pythonize_suffixes [] v = v"
| "pythonize_suffixes ((suffix, ctype) # rest) v =
     (if endswith v suffix
        then ctype @ ''('' @ take (length v - length suffix) v @ '')''
      else pythonize_suffixes rest v)"

definition pythonize_value :: "string \<Rightarrow> string" where
  "pythonize_value v = pythonize_suffixes TYPES_SUFFIX (strip_chars v ''()'')"

definition pythonize_field_name :: "string \<Rightarrow> string" where
  "pythonize_field_name n =
     fold (\<lambda>p name. if startswith name p then drop (length p) name else name)
       [''p_'', ''pp_'', ''pfn_''] (to_snake_case n)"

definition remove_prefix :: "string \<Rightarrow> string" where
  "remove_prefix name =
     (case find (startswith name) [''Vk'', ''VK_'', ''vk''] of
        Some prefix \<Rightarrow> drop (length prefix) name
      | None \<Rightarrow>
          (case find (startswith name) [''PFN_vk'', to_snake_case ''PFN_vk''] of
             Some prefix \<Rightarrow> replace name ''PFN_vk'' ''fn_''
           | None \<Rightarrow> name))"

text \<open>A method call on \<^verbatim>\<open>None\<close> (\<^verbatim>\<open>None.startswith\<close>, \<^verbatim>\<open>None.text\<close>) is an \<^verbatim>\<open>AttributeError\<close>.\<close>

definition remove_prefix_opt :: "string option \<Rightarrow> error + string" where
  "remove_prefix_opt v = (case v of None \<Rightarrow> Inl AttributeError | Some n \<Rightarrow> Inr (remove_prefix n))"

definition first :: "'a list \<Rightarrow> 'a option" where
  "first xs = (case xs of [] \<Rightarrow> None | x # _ \<Rightarrow> Some x)"

definition second :: "'a list \<Rightarrow> error + 'a" where
  "second xs = (case xs of _ # y # _ \<Rightarrow> Inr y | _ \<Rightarrow> Inl StopIteration)"

text \<open>
  \<^verbatim>\<open>map_ctypes\<close> on a string, on a string that may be \<^verbatim>\<open>None\<close> (then \<^verbatim>\<open>type_item.tail\<close>
  raises), and on an element (text plus the first character of the tail, stripped).
\<close>

definition map_ctypes :: "string \<Rightarrow> string" where
  "map_ctypes type_name =
     (case map_of TYPES_MAP type_name of Some py_type \<Rightarrow> py_type | None \<Rightarrow> remove_prefix type_name)"

definition map_ctypes_opt :: "string option \<Rightarrow> error + string" where
  "map_ctypes_opt v = (case v of None \<Rightarrow> Inl AttributeError | Some n \<Rightarrow> Inr (map_ctypes n))"

definition map_ctypes_elem :: "elem \<Rightarrow> error + string" where
  "map_ctypes_elem type_item =
     (case etail type_item of
        Some [] \<Rightarrow> Inl IndexError
      | tail \<Rightarrow>
          (case etext type_item of
             None \<Rightarrow> Inl TypeError
           | Some txt \<Rightarrow>
               Inr (map_ctypes (strip (txt @ (case tail of Some (c # _) \<Rightarrow> [c] | _ \<Rightarrow> []))))))"

text \<open>
  \<^verbatim>\<open>filter_types\<close>: the children of the \<^verbatim>\<open>types\<close> element with a given category;
  iterating \<^verbatim>\<open>None\<close> when there is no \<^verbatim>\<open>types\<close> element is a \<^verbatim>\<open>TypeError\<close>.
\<close>

definition filter_types :: "elem \<Rightarrow> string \<Rightarrow> error + elem list" where
  "filter_types root category =
     (case elem_find root ''types'' of
        None \<Rightarrow> Inl TypeError
      | Some types \<Rightarrow> Inr (filter (\<lambda>t. elem_get t ''category'' = Some category) (echildren types)))"

text \<open>The templates, as \<^verbatim>\<open>prepare_templates\<close> leaves them, applied to their fields.\<close>

definition apostrophe :: string where
  "apostrophe = [CHR 0x27]"

definition ARRAY_TEMPLATE :: "string \<Rightarrow> string \<Rightarrow> string" where
  "ARRAY_TEMPLATE ARRAY_TYPE ARRAY_LENGTH = ''('' @ ARRAY_TYPE @ ''*'' @ ARRAY_LENGTH @ '')''"

definition POINTER_TEMPLATE :: "string \<Rightarrow> string" where
  "POINTER_TEMPLATE POINTER_TYPE = ''POINTER('' @ POINTER_TYPE @ '')''"

definition HANDLE_TEMPLATE :: "string \<Rightarrow> string \<Rightarrow> string" where
  "HANDLE_TEMPLATE HANDLE_NAME HANDLE_TYPE = HANDLE_NAME @ '' = '' @ HANDLE_TYPE @ ''\<newline>''"

definition FLAG_TEMPLATE :: "string \<Rightarrow> string" where
  "FLAG_TEMPLATE FLAG_NAME = FLAG_NAME @ '' = c_uint\<newline>''"

definition BASETYPE_TEMPLATE :: "string \<Rightarrow> string \<Rightarrow> string" where
  "BASETYPE_TEMPLATE BASETYPE_NAME BASETYPE_TYPE =
     BASETYPE_NAME @ '' = '' @ BASETYPE_TYPE @ ''\<newline>''"

definition ENUM_LINE_TEMPLATE :: "string \<Rightarrow> string \<Rightarrow> string" where
  "ENUM_LINE_TEMPLATE ENUM_NAME ENUM_VALUE = ENUM_NAME @ '' = '' @ ENUM_VALUE @ ''\<newline>''"

definition ENUM_TEMPLATE :: "string \<Rightarrow> string \<Rightarrow> string" where
  "ENUM_TEMPLATE ENUM_NAME ENUM_LINES = ENUM_NAME @ '' = c_uint\<newline>'' @ ENUM_LINES @ ''\<newline>''"

definition STRUCTURE_ARGS_TEMPLATE :: "string \<Rightarrow> string \<Rightarrow> string" where
  \<open>STRUCTURE_ARGS_TEMPLATE MEMBER_NAME MEMBER_TYPE =
     ''    ('' @ apostrophe @ MEMBER_NAME @ apostrophe @ '', '' @ MEMBER_TYPE @ ''),\<newline>''\<close>

definition STRUCTURE_TEMPLATE :: "string \<Rightarrow> string \<Rightarrow> string" where
  \<open>STRUCTURE_TEMPLATE NAME ARGS =
     NAME @ '' = define_structure('' @ apostrophe @ NAME @ apostrophe @ '',\<newline>'' @ ARGS @ '')\<newline>\<newline>''\<close>

definition UNION_ARGS_TEMPLATE :: "string \<Rightarrow> string \<Rightarrow> string" where
  \<open>UNION_ARGS_TEMPLATE MEMBER_NAME MEMBER_TYPE =
     ''    ('' @ apostrophe @ MEMBER_NAME @ apostrophe @ '', '' @ MEMBER_TYPE @ ''),\<newline>''\<close>

definition UNION_TEMPLATE :: "string \<Rightarrow> string \<Rightarrow> string" where
  \<open>UNION_TEMPLATE NAME ARGS =
     NAME @ '' = define_union('' @ apostrophe @ NAME @ apostrophe @ '',\<newline>'' @ ARGS @ '')\<newline>\<newline>''\<close>

definition FUNCTIONS_PROTOTYPE_ARGS_TEMPLATE :: "string \<Rightarrow> string" where
  "FUNCTIONS_PROTOTYPE_ARGS_TEMPLATE PROTOTYPE_ARG_TYPE = PROTOTYPE_ARG_TYPE @ '', ''"

definition FUNCTIONS_PROTOTYPE_TEMPLATE :: "string \<Rightarrow> string \<Rightarrow> string \<Rightarrow> string" where
  "FUNCTIONS_PROTOTYPE_TEMPLATE PROTOTYPE_NAME PROTOTYPE_ARGS PROTOTYPE_RETURN =
     PROTOTYPE_NAME @ '' = FUNCTYPE( '' @ PROTOTYPE_RETURN @ '', '' @ PROTOTYPE_ARGS @ '')\<newline>''"

definition COMMAND_ARGS_TEMPLATE :: "string \<Rightarrow> string" where
  "COMMAND_ARGS_TEMPLATE COMMAND_ARG_TYPE = COMMAND_ARG_TYPE @ '', ''"

definition COMMAND_DEFINITION_TEMPLATE :: "string \<Rightarrow> string \<Rightarrow> string \<Rightarrow> string" where
  \<open>COMMAND_DEFINITION_TEMPLATE COMMAND_NAME COMMAND_RETURN COMMAND_ARGS =
     ''    (b'' @ apostrophe @ COMMAND_NAME @ apostrophe @ '', '' @ COMMAND_RETURN @ '', '' @ COMMAND_ARGS @ ''),\<newline>''\<close>

definition COMMAND_TEMPLATE :: "string \<Rightarrow> string \<Rightarrow> string" where
  "COMMAND_TEMPLATE COMMAND_FAMILY_NAME COMMAND_DEFINITIONS =
     COMMAND_FAMILY_NAME @ ''Functions = (\<newline>'' @ COMMAND_DEFINITIONS @ '')\<newline>\<newline>''"

definition GET_INSTANCE_PROC_ADDR_TEMPLATE :: "string \<Rightarrow> string \<Rightarrow> string \<Rightarrow> string" where
  "GET_INSTANCE_PROC_ADDR_TEMPLATE COMMAND_NAME COMMAND_RETURN COMMAND_ARGS =
     COMMAND_NAME @ '' = vk.vk'' @ COMMAND_NAME @ ''\<newline>'' @
     COMMAND_NAME @ ''.restype = '' @ COMMAND_RETURN @ ''\<newline>'' @
     COMMAND_NAME @ ''.argtypes = ('' @ COMMAND_ARGS @ '')\<newline>''"

definition EXTENSION_TEMPLATE :: "string \<Rightarrow> string \<Rightarrow> string" where
  "EXTENSION_TEMPLATE EXTENSION_NAME EXTENSION_ENUMS =
     ''#'' @ EXTENSION_NAME @ ''\<newline>'' @ EXTENSION_ENUMS @ ''\<newline>''"

text \<open>\<^verbatim>\<open>str.format\<close> renders \<^verbatim>\<open>None\<close> as the text \<^verbatim>\<open>None\<close>.\<close>

definition format_opt :: "string option \<Rightarrow> string" where
  "format_opt v = (case v of None \<Rightarrow> ''None'' | Some s \<Rightarrow> s)"

definition format_array :: "string \<Rightarrow> string \<Rightarrow> string" where
  "format_array ctype len = ARRAY_TEMPLATE ctype len"

definition format_pointer :: "string \<Rightarrow> string" where
  "format_pointer ctype =
     (if ctype = ''None'' then the (map_of TYPES_MAP ''void*'')
      else if ctype = ''c_char'' then the (map_of TYPES_MAP ''char*'')
      else POINTER_TEMPLATE ctype)"

definition parse_offset :: "elem \<Rightarrow> int \<Rightarrow> error + string" where
  "parse_offset elem base_offset =
     (case py_int (elem_get elem ''offset'') of
        Inl err \<Rightarrow> Inl err
      | Inr offset \<Rightarrow>
          Inr (str_int (if elem_get elem ''dir'' = Some ''-''
                        then - (offset + base_offset) else offset + base_offset)))"

section \<open>Effects\<close>

text \<open>
  The generator's effects, in the order they happen: a write to the output file, an
  append to \<^verbatim>\<open>DEFINED_IDENTIFIERS\<close>, an append to \<^verbatim>\<open>HANDLE_NAMES\<close>, a \<^verbatim>\<open>print\<close>.
  A history is the list of effects so far; the two global lists and the output file
  are read off it. A stage maps the history so far to the effects it adds and the
  exception that ended it, if any.
\<close>

datatype event = Write string | Define string | Handle string | Print string

type_synonym run = "event list \<times> error option"

definition DEFINED_IDENTIFIERS_initial :: "string list" where
  "DEFINED_IDENTIFIERS_initial =
     [''HINSTANCE'', ''HWND'', ''None'', ''c_void_p'', ''c_float'', ''c_uint8'', ''c_cuint'',
      ''c_uint64'', ''c_int'', ''c_uint'', ''c_size_t'', ''c_char'', ''c_char_p'',
      ''xcb_connection_t'', ''xcb_window_t'', ''xcb_visualid_t'', ''MirConnection'',
      ''MirSurface'', ''wl_display'', ''wl_surface'', ''Display'', ''Window'', ''VisualID'',
      ''ANativeWindow'']"

fun defined_of :: "event list \<Rightarrow> string list" where
  "defined_of [] = []"
| "defined_of (Define n # es) = n # defined_of es"
| "defined_of (_ # es) = defined_of es"

fun handles_of :: "event list \<Rightarrow> string list" where
  "handles_of [] = []"
| "handles_of (Handle n # es) = n # handles_of es"
| "handles_of (_ # es) = handles_of es"

fun writes_of :: "event list \<Rightarrow> string list" where
  "writes_of [] = []"
| "writes_of (Write s # es) = s # writes_of es"
| "writes_of (_ # es) = writes_of es"

definition DEFINED_IDENTIFIERS :: "event list \<Rightarrow> string list" where
  "DEFINED_IDENTIFIERS h = DEFINED_IDENTIFIERS_initial @ defined_of h"

definition HANDLE_NAMES :: "event list \<Rightarrow> string list" where
  "HANDLE_NAMES h = handles_of h"

definition output_text :: "event list \<Rightarrow> string" where
  "output_text h = concat (writes_of h)"

text \<open>Sequencing: the second stage runs on the extended history unless the first raised.\<close>

definition and_then :: "run \<Rightarrow> run \<Rightarrow> run" where
  "and_then r1 r2 =
     (case r1 of
        (es1, Some err) \<Rightarrow> (es1, Some err)
      | (es1, None) \<Rightarrow> (case r2 of (es2, r) \<Rightarrow> (es1 @ es2, r)))"

text \<open>
  A loop whose body reads no global: each item either raises or adds its effects.
\<close>

fun for_each :: "('a \<Rightarrow> error + event list) \<Rightarrow> 'a list \<Rightarrow> run" where
  "for_each body [] = ([], None)"
| "for_each body (x # xs) =
     (case body x of
        Inl err \<Rightarrow> ([], Some err)
      | Inr es \<Rightarrow> and_then (es, None) (for_each body xs))"

text \<open>
  A generator expression consumed by \<^verbatim>\<open>''.join\<close>: the first item that raises ends it.
\<close>

fun join_each :: "('a \<Rightarrow> error + string) \<Rightarrow> 'a list \<Rightarrow> error + string" where
  "join_each f [] = Inr []"
| "join_each f (x # xs) =
     (case f x of
        Inl err \<Rightarrow> Inl err
      | Inr s \<Rightarrow> (case join_each f xs of Inl err \<Rightarrow> Inl err | Inr r \<Rightarrow> Inr (s @ r)))"

section \<open>Stages without dependencies\<close>

definition first_name_text :: "elem \<Rightarrow> error + string" where
  "first_name_text e =
     (case first (elem_iter ''name'' e) of
        None \<Rightarrow> Inl AttributeError
      | Some n \<Rightarrow> remove_prefix_opt (etext n))"

definition parse_handle :: "elem \<Rightarrow> error + event list" where
  "parse_handle handle =
     (case elem_find handle ''type'' of
        None \<Rightarrow> Inl AttributeError
      | Some ty \<Rightarrow>
          (case first_name_text handle of
             Inl err \<Rightarrow> Inl err
           | Inr handle_name \<Rightarrow>
               Inr [Write (HANDLE_TEMPLATE handle_name
                      (if etext ty = Some ''VK_DEFINE_HANDLE''
                       then the (map_of TYPES_MAP ''size_t'')
                       else the (map_of TYPES_MAP ''uint64_t''))),
                    Handle handle_name,
                    Define handle_name]))"

definition parse_handles :: "elem \<Rightarrow> run" where
  "parse_handles root =
     and_then ([Write ''\<newline># HANDLES\<newline>\<newline>''], None)
       (case filter_types root ''handle'' of
          Inl err \<Rightarrow> ([], Some err)
        | Inr hs \<Rightarrow> and_then (for_each parse_handle hs) ([Write ''\<newline>''], None))"

definition parse_basetype :: "elem \<Rightarrow> error + event list" where
  "parse_basetype basetype =
     (case second (elem_iter ''type'' basetype) of
        Inl err \<Rightarrow> Inl err
      | Inr ty \<Rightarrow>
          (case map_ctypes_elem ty of
             Inl err \<Rightarrow> Inl err
           | Inr basetype_type \<Rightarrow>
               (case first_name_text basetype of
                  Inl err \<Rightarrow> Inl err
                | Inr basetype_name \<Rightarrow>
                    Inr [Write (BASETYPE_TEMPLATE basetype_name basetype_type),
                         Define basetype_name])))"

definition parse_basetypes :: "elem \<Rightarrow> run" where
  "parse_basetypes root =
     and_then ([Write ''\<newline># BASETYPES\<newline>\<newline>''], None)
       (case filter_types root ''basetype'' of
          Inl err \<Rightarrow> ([], Some err)
        | Inr bs \<Rightarrow> and_then (for_each parse_basetype bs) ([Write ''\<newline>''], None))"

definition parse_flag :: "elem \<Rightarrow> error + event list" where
  "parse_flag flag =
     (case first_name_text flag of
        Inl err \<Rightarrow> Inl err
      | Inr flag_name \<Rightarrow> Inr [Write (FLAG_TEMPLATE flag_name), Define flag_name])"

definition parse_flags :: "elem \<Rightarrow> run" where
  "parse_flags root =
     and_then ([Write ''\<newline># FLAGS\<newline>\<newline>''], None)
       (case filter_types root ''bitmask'' of
          Inl err \<Rightarrow> ([], Some err)
        | Inr fs \<Rightarrow> and_then (for_each parse_flag fs) ([Write ''\<newline>''], None))"

text \<open>
  \<^verbatim>\<open>x.get('value') or "1<<"+x.get('bitpos')\<close>: an absent or empty \<^verbatim>\<open>value\<close> is
  falsy; concatenating \<^verbatim>\<open>None\<close> is a \<^verbatim>\<open>TypeError\<close>.
\<close>

definition truthy :: "string option \<Rightarrow> bool" where
  "truthy v \<longleftrightarrow> v \<noteq> None \<and> v \<noteq> Some []"

definition value_or_bitpos :: "elem \<Rightarrow> error + string" where
  "value_or_bitpos x =
     (if truthy (elem_get x ''value'') then Inr (the (elem_get x ''value''))
      else (case elem_get x ''bitpos'' of
              None \<Rightarrow> Inl TypeError
            | Some b \<Rightarrow> Inr (''1<<'' @ b)))"

definition enum_line :: "elem \<Rightarrow> error + string" where
  "enum_line enum_mem =
     (case value_or_bitpos enum_mem of
        Inl err \<Rightarrow> Inl err
      | Inr v \<Rightarrow>
          (case remove_prefix_opt (elem_get enum_mem ''name'') of
             Inl err \<Rightarrow> Inl err
           | Inr n \<Rightarrow> Inr (ENUM_LINE_TEMPLATE n (pythonize_value v))))"

definition parse_enum :: "elem \<Rightarrow> error + event list" where
  "parse_enum enum =
     (case elem_get enum ''name'' of
        None \<Rightarrow> Inl AttributeError
      | Some name \<Rightarrow>
          (case join_each enum_line (filter (\<lambda>m. etag m = ''enum'') (echildren enum)) of
             Inl err \<Rightarrow> Inl err
           | Inr enum_mems \<Rightarrow>
               Inr [Write (ENUM_TEMPLATE (remove_prefix (replace name '' '' ''_'')) enum_mems),
                    Define (remove_prefix (replace name '' '' ''_''))]))"

definition parse_enums :: "elem \<Rightarrow> run" where
  "parse_enums root =
     and_then ([Write ''# ENUMS\<newline>\<newline>''], None)
       (for_each parse_enum (elem_iter ''enums'' root))"

text \<open>
  Function pointers: the first \<^verbatim>\<open>type\<close> element of \<^verbatim>\<open>ptr.iter('type')\<close> carries the
  return type in its text, the others are the argument types.
\<close>

definition extract_return_type :: "string option \<Rightarrow> error + string" where
  "extract_return_type v =
     (case v of
        None \<Rightarrow> Inl AttributeError
      | Some txt \<Rightarrow>
          Inr (map_ctypes (strip (replace (replace txt ''typedef'' []) ''(VKAPI_PTR *'' []))))"

definition prototype_arg :: "elem \<Rightarrow> error + string" where
  "prototype_arg t =
     (case map_ctypes_elem t of
        Inl err \<Rightarrow> Inl err
      | Inr ty \<Rightarrow> Inr (FUNCTIONS_PROTOTYPE_ARGS_TEMPLATE ty))"

definition parse_funcpointer :: "elem \<Rightarrow> error + event list" where
  "parse_funcpointer ptr =
     (case first_name_text ptr of
        Inl err \<Rightarrow> Inl err
      | Inr name \<Rightarrow>
          (case elem_iter ''type'' ptr of
             [] \<Rightarrow> Inl StopIteration
           | t # ptrs_args_types \<Rightarrow>
               (case extract_return_type (etext t) of
                  Inl err \<Rightarrow> Inl err
                | Inr return_v \<Rightarrow>
                    (case join_each prototype_arg ptrs_args_types of
                       Inl err \<Rightarrow> Inl err
                     | Inr args \<Rightarrow>
                         Inr [Write (FUNCTIONS_PROTOTYPE_TEMPLATE name args return_v),
                              Define name]))))"

definition parse_funcpointers :: "elem \<Rightarrow> run" where
  "parse_funcpointers root =
     and_then ([Write ''\<newline># FUNC POINTERS\<newline>\<newline>''], None)
       (case filter_types root ''funcpointer'' of
          Inl err \<Rightarrow> ([], Some err)
        | Inr ps \<Rightarrow> and_then (for_each parse_funcpointer ps) ([Write ''\<newline>''], None))"

section \<open>Structures and unions\<close>

definition parse_structure_member :: "elem \<Rightarrow> error + string \<times> string" where
  "parse_structure_member struct_mem =
     (case elem_find struct_mem ''type'' of
        None \<Rightarrow> Inl AttributeError
      | Some type_node \<Rightarrow>
          (case map_ctypes_opt (etext type_node) of
             Inl err \<Rightarrow> Inl err
           | Inr mem_type \<Rightarrow>
               (case elem_find struct_mem ''name'' of
                  None \<Rightarrow> Inl AttributeError
                | Some name_node \<Rightarrow>
                    (case etext name_node of
                       None \<Rightarrow> Inl TypeError
                     | Some name_text \<Rightarrow>
                         (let mem_name = pythonize_field_name name_text;
                              ptr_type =
                                (case etail type_node of
                                   None \<Rightarrow> mem_type
                                 | Some tail \<Rightarrow>
                                     (format_pointer ^^ length (filter (\<lambda>c. c = CHR ''*'') tail))
                                       mem_type)
                          in if elem_find struct_mem ''enum'' \<noteq> None
                                \<or> (if truthy (etail name_node)
                                    then hd (the (etail name_node)) else CHR '' '') = CHR ''[''
                             then
                               (case elem_find struct_mem ''enum'' of
                                  None \<Rightarrow>
                                    Inr (mem_name,
                                         format_array ptr_type
                                           (replace (replace (the (etail name_node)) ''['' []) '']'' []))
                                | Some array_length \<Rightarrow>
                                    (case remove_prefix_opt (etext array_length) of
                                       Inl err \<Rightarrow> Inl err
                                     | Inr len \<Rightarrow> Inr (mem_name, format_array ptr_type len)))
                             else Inr (mem_name, ptr_type))))))"

definition member_line :: "bool \<Rightarrow> elem \<Rightarrow> error + string" where
  "member_line is_struct struct_mem =
     (case parse_structure_member struct_mem of
        Inl err \<Rightarrow> Inl err
      | Inr (n, t) \<Rightarrow>
          Inr (if is_struct then STRUCTURE_ARGS_TEMPLATE n t else UNION_ARGS_TEMPLATE n t))"

text \<open>The declaration \<^verbatim>\<open>parse_struct_or_enum\<close> writes last, from the members.\<close>

definition struct_declaration :: "string \<Rightarrow> elem list \<Rightarrow> bool \<Rightarrow> error + string" where
  "struct_declaration struct_name members is_struct =
     (case join_each (member_line is_struct) members of
        Inl err \<Rightarrow> Inl err
      | Inr struct_mems \<Rightarrow>
          Inr (if is_struct then STRUCTURE_TEMPLATE struct_name struct_mems
               else UNION_TEMPLATE struct_name struct_mems))"

text \<open>The base type of a member, \<^verbatim>\<open>map_ctypes(mem.find('type').text)\<close>.\<close>

definition member_type :: "elem \<Rightarrow> error + string" where
  "member_type mem =
     (case elem_find mem ''type'' of
        None \<Rightarrow> Inl AttributeError
      | Some type_node \<Rightarrow> map_ctypes_opt (etext type_node))"

text \<open>
  The two searches for a dependency: the first structure and the first union named
  \<^verbatim>\<open>'Vk'+t\<close>. \<^verbatim>\<open>struct or union\<close> is the structure when it has children (an element
  without children is falsy) and the union otherwise.
\<close>

definition find_named :: "elem \<Rightarrow> string \<Rightarrow> string \<Rightarrow> error + elem option" where
  "find_named root category t =
     (case filter_types root category of
        Inl err \<Rightarrow> Inl err
      | Inr ts \<Rightarrow> Inr (first (filter (\<lambda>s. elem_get s ''name'' = Some (''Vk'' @ t)) ts)))"

definition struct_or_union :: "elem option \<Rightarrow> elem option \<Rightarrow> elem option" where
  "struct_or_union struct' union' =
     (case struct' of
        Some s \<Rightarrow> (if echildren s \<noteq> [] then Some s else union')
      | None \<Rightarrow> union')"

function parse_struct_or_enum :: "elem \<Rightarrow> elem \<Rightarrow> bool \<Rightarrow> event list \<Rightarrow> run"
  and parse_dependencies :: "elem \<Rightarrow> elem list \<Rightarrow> event list \<Rightarrow> run"
where
  "parse_struct_or_enum root struct is_struct h =
     (case remove_prefix_opt (elem_get struct ''name'') of
        Inl err \<Rightarrow> ([], Some err)
      | Inr struct_name \<Rightarrow>
          (if struct_name \<in> set (DEFINED_IDENTIFIERS h) then ([], None)
           else
             and_then ([Define struct_name], None)
               (and_then
                  (parse_dependencies root (elem_iter ''member'' struct) (h @ [Define struct_name]))
                  (case struct_declaration struct_name (elem_iter ''member'' struct) is_struct of
                     Inl err \<Rightarrow> ([], Some err)
                   | Inr text \<Rightarrow> ([Write text], None)))))"
| "parse_dependencies root [] h = ([], None)"
| "parse_dependencies root (mem # members) h =
     (case member_type mem of
        Inl err \<Rightarrow> ([], Some err)
      | Inr t \<Rightarrow>
          (if t \<in> set (DEFINED_IDENTIFIERS h) then parse_dependencies root members h
           else
             (case find_named root ''struct'' t of
                Inl err \<Rightarrow> ([], Some err)
              | Inr struct' \<Rightarrow>
                  (case find_named root ''union'' t of
                     Inl err \<Rightarrow> ([], Some err)
                   | Inr union' \<Rightarrow>
                       (if struct' = None \<and> union' = None
                        then and_then ([Print (t @ '' was not found'')], None)
                               (parse_dependencies root members
                                  (h @ [Print (t @ '' was not found'')]))
                        else
                          (case struct_or_union struct' union' of
                             None \<Rightarrow> ([], Some AttributeError)
                           | Some dependency \<Rightarrow>
                               and_then
                                 (parse_struct_or_enum root dependency (union' = None) h)
                                 (parse_dependencies root members
                                    (h @ fst (parse_struct_or_enum root dependency (union' = None) h)))))))))"
  by pat_completeness auto

text \<open>
  The measure of the calls. The names, without their \<^verbatim>\<open>Vk\<close>, of the declared structures
  and unions named \<^verbatim>\<open>Vk...\<close> that are not yet in \<^verbatim>\<open>DEFINED_IDENTIFIERS\<close> get fewer with every nested call: a
  dependency is only parsed when its name is not defined, and parsing defines it first.
\<close>

definition short_name :: "elem \<Rightarrow> string option" where
  "short_name e =
     (case elem_get e ''name'' of
        None \<Rightarrow> None
      | Some n \<Rightarrow> (if startswith n ''Vk'' then Some (drop 2 n) else None))"

definition declared_names :: "elem \<Rightarrow> string set" where
  "declared_names root =
     set (concat (map (\<lambda>category.
            case filter_types root category of
              Inl _ \<Rightarrow> []
            | Inr ts \<Rightarrow> List.map_filter short_name ts)
          [''struct'', ''union'']))"

definition pending :: "elem \<Rightarrow> event list \<Rightarrow> nat" where
  "pending root h = card (declared_names root - set (DEFINED_IDENTIFIERS h))"

definition resolver_measure :: "(elem \<times> elem \<times> bool \<times> event list) + (elem \<times> elem list \<times> event list) \<Rightarrow> nat \<times> nat" where
  "resolver_measure x =
     (case x of
        Inl (root, struct, is_struct, h) \<Rightarrow>
          (case remove_prefix_opt (elem_get struct ''name'') of
             Inl _ \<Rightarrow> (0, 0)
           | Inr n \<Rightarrow>
               (if n \<in> declared_names root then (2 * pending root h, 0)
                else (2 * pending root h + 2, 0)))
      | Inr (root, members, h) \<Rightarrow> (2 * pending root h + 1, length members))"

fun parse_each :: "elem \<Rightarrow> elem list \<Rightarrow> event list \<Rightarrow> run" where
  "parse_each root [] h = ([], None)"
| "parse_each root (struct # rest) h =
     and_then (parse_struct_or_enum root struct True h)
       (parse_each root rest (h @ fst (parse_struct_or_enum root struct True h)))"

text \<open>Both loops call \<^verbatim>\<open>parse_struct_or_enum(x, o)\<close>, so with \<^verbatim>\<open>is_struct=True\<close>.\<close>

definition parse_unions :: "elem \<Rightarrow> event list \<Rightarrow> run" where
  "parse_unions root h =
     (case filter_types root ''union'' of
        Inl err \<Rightarrow> ([], Some err)
      | Inr unions \<Rightarrow> parse_each root unions h)"

definition parse_structures_and_unions :: "elem \<Rightarrow> event list \<Rightarrow> run" where
  "parse_structures_and_unions root h =
     and_then ([Write ''\<newline># STRUCTURES\<newline>\<newline>''], None)
       (case filter_types root ''struct'' of
          Inl err \<Rightarrow> ([], Some err)
        | Inr structs \<Rightarrow>
            and_then (parse_each root structs (h @ [Write ''\<newline># STRUCTURES\<newline>\<newline>'']))
              (parse_unions root
                 (h @ [Write ''\<newline># STRUCTURES\<newline>\<newline>''] @
                  fst (parse_each root structs (h @ [Write ''\<newline># STRUCTURES\<newline>\<newline>''])))))"

section \<open>Commands\<close>

definition parse_command_argument_type :: "elem \<Rightarrow> error + string" where
  "parse_command_argument_type argtype =
     (case map_ctypes_opt (etext argtype) of
        Inl err \<Rightarrow> Inl err
      | Inr cmd_arg_type \<Rightarrow>
          (case etail argtype of
             None \<Rightarrow> Inr (COMMAND_ARGS_TEMPLATE cmd_arg_type)
           | Some [] \<Rightarrow> Inl IndexError
           | Some (c # _) \<Rightarrow>
               Inr (COMMAND_ARGS_TEMPLATE
                      (if c = CHR ''*'' then format_pointer cmd_arg_type else cmd_arg_type))))"

text \<open>
  \<^verbatim>\<open>commands_groups\<close> is a \<^verbatim>\<open>dict\<close> from family name to the list of its command
  definitions; a \<^verbatim>\<open>dict\<close> iterates in insertion order, so it is an association list
  in which a new key goes last.
\<close>

type_synonym groups = "(string \<times> string list) list"

definition add_to_group :: "string \<Rightarrow> string \<Rightarrow> groups \<Rightarrow> groups" where
  "add_to_group group_key cmd commands_groups =
     (if group_key \<notin> set (map fst commands_groups) then commands_groups @ [(group_key, [cmd])]
      else map (\<lambda>(k, cmds). if k = group_key then (k, cmds @ [cmd]) else (k, cmds))
             commands_groups)"

definition command_params :: "elem \<Rightarrow> elem list" where
  "command_params command = List.map_filter (\<lambda>p. elem_find p ''type'') (elem_iter ''param'' command)"

text \<open>The family of a command that is not the entry point, from its first parameter.\<close>

definition family :: "string list \<Rightarrow> string \<Rightarrow> string option \<Rightarrow> string" where
  "family handle_names group_key command_name =
     (if group_key \<notin> set handle_names then ''Loader''
      else if command_name = Some ''vkGetDeviceProcAddr'' then ''Instance''
      else group_key)"

type_synonym proc_addr_info = "(string \<times> string \<times> string) option"

text \<open>
  One turn of the loop over the commands: the command is either the entry point
  \<^verbatim>\<open>vkGetInstanceProcAddr\<close>, kept apart with its name, return type and arguments, or a
  command definition for a family.
\<close>

datatype parsed_command =
  Entry_Point string string string
| Family_Member string string

definition parse_command :: "string list \<Rightarrow> elem \<Rightarrow> error + parsed_command" where
  "parse_command handle_names command =
     (case elem_find command ''proto'' of
        None \<Rightarrow> Inl TypeError
      | Some proto \<Rightarrow>
          (case echildren proto of
             [type_node, name_node] \<Rightarrow>
               (case map_ctypes_opt (etext type_node) of
                  Inl err \<Rightarrow> Inl err
                | Inr command_type \<Rightarrow>
                    (case join_each parse_command_argument_type (command_params command) of
                       Inl err \<Rightarrow> Inl err
                     | Inr params \<Rightarrow>
                         (if etext name_node = Some ''vkGetInstanceProcAddr''
                          then Inr (Entry_Point (remove_prefix ''vkGetInstanceProcAddr'')
                                      command_type params)
                          else
                            (case command_params command of
                               [] \<Rightarrow> Inl IndexError
                             | p # _ \<Rightarrow>
                                 (case map_ctypes_opt (etext p) of
                                    Inl err \<Rightarrow> Inl err
                                  | Inr group_key \<Rightarrow>
                                      Inr (Family_Member
                                             (family handle_names group_key (etext name_node))
                                             (COMMAND_DEFINITION_TEMPLATE
                                                (format_opt (etext name_node))
                                                command_type params)))))))
           | _ \<Rightarrow> Inl ValueError))"

fun record_command ::
  "parsed_command \<Rightarrow> groups \<times> proc_addr_info \<Rightarrow> groups \<times> proc_addr_info" where
  "record_command (Entry_Point name ctype params) (commands_groups, info) =
     (commands_groups, Some (name, ctype, params))"
| "record_command (Family_Member group_key cmd) (commands_groups, info) =
     (add_to_group group_key cmd commands_groups, info)"

fun group_commands ::
  "string list \<Rightarrow> elem list \<Rightarrow> groups \<times> proc_addr_info \<Rightarrow> error + groups \<times> proc_addr_info" where
  "group_commands handle_names [] st = Inr st"
| "group_commands handle_names (command # commands) st =
     (case parse_command handle_names command of
        Inl err \<Rightarrow> Inl err
      | Inr parsed \<Rightarrow> group_commands handle_names commands (record_command parsed st))"

definition write_family :: "string \<times> string list \<Rightarrow> event" where
  "write_family g = Write (COMMAND_TEMPLATE (fst g) (concat (snd g)))"

definition parse_commands :: "elem \<Rightarrow> event list \<Rightarrow> run" where
  "parse_commands root h =
     and_then ([Write ''\<newline># FUNCTIONS \<newline>\<newline>''], None)
       (case elem_find root ''commands'' of
          None \<Rightarrow> ([], Some TypeError)
        | Some commands \<Rightarrow>
            (case group_commands (HANDLE_NAMES h) (echildren commands) ([], None) of
               Inl err \<Rightarrow> ([], Some err)
             | Inr (commands_groups, get_instance_proc_addr_info) \<Rightarrow>
                 and_then (map write_family commands_groups, None)
                   (case get_instance_proc_addr_info of
                      None \<Rightarrow> ([], Some TypeError)
                    | Some (name, ctype, params) \<Rightarrow>
                        ([Write (GET_INSTANCE_PROC_ADDR_TEMPLATE name ctype params)], None))))"

section \<open>Extensions\<close>

definition parse_bitpos :: "string option \<Rightarrow> string option" where
  "parse_bitpos x = (case x of None \<Rightarrow> None | Some b \<Rightarrow> Some (''1<<'' @ b))"

definition value_or_offset_or_bitpos :: "int \<Rightarrow> elem \<Rightarrow> error + string" where
  "value_or_offset_or_bitpos offset x =
     (if truthy (elem_get x ''value'') then Inr (the (elem_get x ''value''))
      else if truthy (parse_bitpos (elem_get x ''bitpos''))
        then Inr (the (parse_bitpos (elem_get x ''bitpos'')))
      else parse_offset x offset)"

definition extension_enum_line :: "int \<Rightarrow> elem \<Rightarrow> error + string" where
  "extension_enum_line offset e =
     (case remove_prefix_opt (elem_get e ''name'') of
        Inl err \<Rightarrow> Inl err
      | Inr n \<Rightarrow>
          (case value_or_offset_or_bitpos offset e of
             Inl err \<Rightarrow> Inl err
           | Inr v \<Rightarrow> Inr (ENUM_LINE_TEMPLATE n (remove_prefix v))))"

definition extension_offset :: "int \<Rightarrow> int" where
  "extension_offset number = 1000000000 + ((number - 1) * 1000)"

definition parse_extension :: "elem \<Rightarrow> error + event list" where
  "parse_extension extension =
     (case elem_find extension ''require'' of
        None \<Rightarrow> Inl AttributeError
      | Some require \<Rightarrow>
          (case elem_find require ''enum'' of
             None \<Rightarrow> Inl AttributeError
           | Some e \<Rightarrow>
               (if elem_get e ''value'' = Some ''0'' then Inr []
                else
                  (case py_int (elem_get extension ''number'') of
                     Inl err \<Rightarrow> Inl err
                   | Inr number \<Rightarrow>
                       (case join_each (extension_enum_line (extension_offset number))
                               (elem_iter ''enum'' require) of
                          Inl err \<Rightarrow> Inl err
                        | Inr enum_mems \<Rightarrow>
                            Inr [Write (EXTENSION_TEMPLATE
                                          (format_opt (elem_get extension ''name'')) enum_mems)])))))"

definition parse_extensions :: "elem \<Rightarrow> run" where
  "parse_extensions root =
     and_then ([Write ''\<newline># EXTENSIONS \<newline>\<newline>''], None)
       (case elem_find root ''extensions'' of
          None \<Rightarrow> ([], Some AttributeError)
        | Some extensions \<Rightarrow> for_each parse_extension (elem_iter ''extension'' extensions))"

section \<open>The generation pass\<close>

definition IMPORTS_TEMPLATE :: string where
  \<open>IMPORTS_TEMPLATE =
     ''# -*- coding: utf-8 -*-\<newline>'' @
     ''from ctypes import (c_void_p, c_float, c_uint8, c_uint, c_uint64, c_int, c_size_t, c_char, c_char_p, cast, Structure, Union, POINTER)\<newline>'' @
     ''from platform import system\<newline>''\<close>

definition INITIALIZATION_TEMPLATE :: string where
  \<open>INITIALIZATION_TEMPLATE =
     ''# Sysem initialization\<newline>'' @
     ''system_name = system()\<newline>'' @
     ''if system_name == 'Windows':\<newline>'' @
     ''    from ctypes import WINFUNCTYPE, windll\<newline>'' @
     ''    FUNCTYPE = WINFUNCTYPE\<newline>'' @
     ''    vk = windll.LoadLibrary('vulkan-1')\<newline>'' @
     ''elif system_name == 'Linux':\<newline>'' @
     ''    from ctypes import CFUNCTYPE, cdll\<newline>'' @
     ''    FUNCTYPE = CFUNCTYPE\<newline>'' @
     ''    vk = cdll.LoadLibrary('libvulkan.so.1')\<newline>'' @
     ''\<newline>'' @
     ''# System types\<newline>'' @
     ''HINSTANCE = c_void_p\<newline>'' @
     ''HWND = c_void_p\<newline>'' @
     ''xcb_connection_t = c_void_p\<newline>'' @
     ''xcb_window_t = c_uint\<newline>'' @
     ''xcb_visualid_t = c_uint\<newline>'' @
     ''MirConnection = c_void_p\<newline>'' @
     ''MirSurface = c_void_p\<newline>'' @
     ''wl_display = c_void_p\<newline>'' @
     ''wl_surface = c_void_p\<newline>'' @
     ''Display = c_void_p\<newline>'' @
     ''Window = c_uint\<newline>'' @
     ''VisualID = c_uint\<newline>'' @
     ''ANativeWindow = c_void_p\<newline>'' @
     ''\<newline>'' @
     ''def MAKE_VERSION(major, minor, patch):\<newline>'' @
     ''    return (major<<22) | (minor<<12) | patch\<newline>'' @
     ''\<newline>'' @
     ''def define_structure(name, *args):\<newline>'' @
     ''    return type(name, (Structure,), {'_fields_': args})\<newline>'' @
     ''\<newline>'' @
     ''def define_union(name, *args):\<newline>'' @
     ''    return type(name, (Union,), {'_fields_': args})\<newline>'' @
     ''\<newline>'' @
     ''def load_functions(vk_object, functions_list, loader):\<newline>'' @
     ''    functions = []\<newline>'' @
     ''    for name, return_type, *args in functions_list:\<newline>'' @
     ''        py_name = name.decode()[2::]\<newline>'' @
     ''        fn_ptr = loader(vk_object, name)\<newline>'' @
     ''        fn_ptr = cast(fn_ptr, c_void_p)\<newline>'' @
     ''        if fn_ptr:\<newline>'' @
     ''            fn = (FUNCTYPE(return_type, *args))(fn_ptr.value)\<newline>'' @
     ''            functions.append((py_name, fn))\<newline>'' @
     ''        elif __debug__ == True:\<newline>'' @
     ''            print('Function {} could not be loaded. (__debug__ == True)'.format(py_name))\<newline>'' @
     ''    return functions\<newline>'' @
     ''\<newline>'' @
     ''API_VERSION_1_0 = MAKE_VERSION(1,0,0)\<newline>''\<close>

definition POST_INITIALIZATION_TEMPLATE :: string where
  \<open>POST_INITIALIZATION_TEMPLATE =
     ''# Load the loader functions in the module namespace\<newline>'' @
     ''loc = locals()\<newline>'' @
     ''for name, fnptr in load_functions(Instance(0), LoaderFunctions, GetInstanceProcAddr):\<newline>'' @
     ''    loc[name] = fnptr\<newline>'' @
     ''del loc\<newline>''\<close>

definition add_imports :: run where
  "add_imports = ([Write IMPORTS_TEMPLATE], None)"

definition add_initialization :: run where
  "add_initialization = ([Write (''\<newline>\<newline>'' @ INITIALIZATION_TEMPLATE @ ''\<newline>'')], None)"

definition add_post_initialization :: run where
  "add_post_initialization =
     ([Write (''\<newline>\<newline>'' @ POST_INITIALIZATION_TEMPLATE @ ''\<newline>'')], None)"

text \<open>
  \<^verbatim>\<open>export\<close> calls the stages one after the other; an exception of one ends the run.
  The document is the parsed \<^verbatim>\<open>SHARED['root']\<close>; reading the file, opening and closing
  the output are outside the model.
\<close>

fun stages :: "(event list \<Rightarrow> run) list \<Rightarrow> event list \<Rightarrow> run" where
  "stages [] h = ([], None)"
| "stages (stage # rest) h = and_then (stage h) (stages rest (h @ fst (stage h)))"

definition export_stages :: "elem \<Rightarrow> (event list \<Rightarrow> run) list" where
  "export_stages root =
     [\<lambda>h. add_imports,
      \<lambda>h. add_initialization,
      \<lambda>h. parse_basetypes root,
      \<lambda>h. parse_handles root,
      \<lambda>h. parse_flags root,
      \<lambda>h. parse_enums root,
      \<lambda>h. parse_funcpointers root,
      parse_structures_and_unions root,
      parse_commands root,
      \<lambda>h. parse_extensions root,
      \<lambda>h. add_post_initialization]"

definition export :: "elem \<Rightarrow> run" where
  "export root = stages (export_stages root) []"

section \<open>Vocabulary of the properties\<close>

definition is_entry_point :: "elem \<Rightarrow> bool" where
  "is_entry_point command \<longleftrightarrow>
     (case elem_find command ''proto'' of
        None \<Rightarrow> False
      | Some proto \<Rightarrow>
          (case echildren proto of
             [type_node, name_node] \<Rightarrow> etext name_node = Some ''vkGetInstanceProcAddr''
           | _ \<Rightarrow> False))"

definition commands_of :: "elem \<Rightarrow> elem list" where
  "commands_of root = (case elem_find root ''commands'' of None \<Rightarrow> [] | Some commands \<Rightarrow> echildren commands)"




definition not_found :: "elem \<Rightarrow> string \<Rightarrow> bool" where
  "not_found root t \<longleftrightarrow>
     find_named root ''struct'' t = Inr None \<and> find_named root ''union'' t = Inr None"

definition fresh :: "event list \<Rightarrow> event list \<Rightarrow> bool" where
  "fresh h es \<longleftrightarrow>
     distinct (defined_of es) \<and> set (defined_of es) \<inter> set (DEFINED_IDENTIFIERS h) = {}"










text \<open>
  The warnings of a loop over members none of which has a dependency to parse: one
  per member whose base type is not among the names given.
\<close>

definition member_types :: "elem list \<Rightarrow> string list" where
  "member_types members =
     concat (map (\<lambda>m. case member_type m of Inr t \<Rightarrow> [t] | Inl err \<Rightarrow> []) members)"

definition warnings :: "string list \<Rightarrow> elem list \<Rightarrow> event list" where
  "warnings names members =
     map (\<lambda>t. Print (t @ '' was not found''))
       (filter (\<lambda>t. t \<notin> set names) (member_types members))"

text \<open>The effects of the run before the structure stage and before the command stage.\<close>

definition before_structures :: "elem \<Rightarrow> event list" where
  "before_structures root =
     fst add_imports @ fst add_initialization @ fst (parse_basetypes root) @
     fst (parse_handles root) @ fst (parse_flags root) @ fst (parse_enums root) @
     fst (parse_funcpointers root)"

definition before_commands :: "elem \<Rightarrow> event list" where
  "before_commands root =
     before_structures root @ fst (parse_structures_and_unions root (before_structures root))"

text \<open>The effects of a list of stages none of which raises.\<close>

fun all_events :: "(event list \<Rightarrow> run) list \<Rightarrow> event list \<Rightarrow> event list" where
  "all_events [] h = []"
| "all_events (stage # rest) h = fst (stage h) @ all_events rest (h @ fst (stage h))"


section \<open>Example documents\<close>



definition command_elem :: "string \<Rightarrow> string \<Rightarrow> (string \<times> string option) list \<Rightarrow> elem" where
  "command_elem return_type name params =
     Elem ''command'' [] None None
       (Elem ''proto'' [] None None
          [Elem ''type'' [] (Some return_type) None [], Elem ''name'' [] (Some name) None []] #
        map (\<lambda>(t, tail). Elem ''param'' [] None None [Elem ''type'' [] (Some t) tail []]) params)"

definition vkCreateInstance :: elem where
  "vkCreateInstance = command_elem ''VkResult'' ''vkCreateInstance'' [(''VkInstanceCreateInfo'', Some ''* '')]"

definition vkGetInstanceProcAddr :: elem where
  "vkGetInstanceProcAddr =
     command_elem ''PFN_vkVoidFunction'' ''vkGetInstanceProcAddr'' [(''VkInstance'', None), (''char'', Some ''* '')]"



definition commands_document :: "elem list \<Rightarrow> elem" where
  "commands_document commands = Elem ''registry'' [] None None [Elem ''commands'' [] None None commands]"


definition struct_elem :: "string \<Rightarrow> elem list \<Rightarrow> elem" where
  "struct_elem name members =
     Elem ''type'' [(''category'', ''struct''), (''name'', name)] None None members"

definition union_elem :: "string \<Rightarrow> elem list \<Rightarrow> elem" where
  "union_elem name members =
     Elem ''type'' [(''category'', ''union''), (''name'', name)] None None members"

definition member_elem :: "string \<Rightarrow> string option \<Rightarrow> string \<Rightarrow> elem" where
  "member_elem ctype tail name =
     Elem ''member'' [] None None
       [Elem ''type'' [] (Some ctype) tail [], Elem ''name'' [] (Some name) None []]"

definition types_document :: "elem list \<Rightarrow> elem" where
  "types_document types = Elem ''registry'' [] None None [Elem ''types'' [] None None types]"

definition STRUCTURES :: string where
  "STRUCTURES = ''\<newline># STRUCTURES\<newline>\<newline>''"

definition declaration_text :: "string \<Rightarrow> string \<Rightarrow> (string \<times> string) list \<Rightarrow> string" where
  "declaration_text kind name fields =
     name @ '' = define_'' @ kind @ ''('' @ apostrophe @ name @ apostrophe @ '',\<newline>'' @
     concat (map (\<lambda>(n, t). ''    ('' @ apostrophe @ n @ apostrophe @ '', '' @ t @ ''),\<newline>'') fields) @
     '')\<newline>\<newline>''"

text \<open>A structure with a member of a type that is declared nowhere.\<close>

definition missing_document :: elem where
  "missing_document = types_document [struct_elem ''VkA'' [member_elem ''VkMissing'' None ''m'']]"

text \<open>Two structures that refer to each other, one through a pointer.\<close>

definition cyclic_document :: elem where
  "cyclic_document =
     types_document
       [struct_elem ''VkA'' [member_elem ''VkB'' None ''b''],
        struct_elem ''VkB'' [member_elem ''VkA'' (Some ''* '') ''pNext'']]"


definition handle_elem :: "string \<Rightarrow> elem" where
  "handle_elem name =
     Elem ''type'' [(''category'', ''handle'')] None None
       [Elem ''type'' [] (Some ''VK_DEFINE_HANDLE'') (Some ''('') [],
        Elem ''name'' [] (Some name) (Some '')'') []]"

definition basetype_elem :: "string \<Rightarrow> string \<Rightarrow> elem" where
  "basetype_elem ctype name =
     Elem ''type'' [(''category'', ''basetype'')] (Some ''typedef '') None
       [Elem ''type'' [] (Some ctype) (Some '' '') [],
        Elem ''name'' [] (Some name) (Some '';'') []]"



text \<open>
  A document with a handle declared before a base type, the entry point as its only
  command and no extension.
\<close>

definition order_document :: elem where
  "order_document =
     Elem ''registry'' [] None None
       [Elem ''types'' [] None None
          [handle_elem ''VkInstance'', basetype_elem ''uint32_t'' ''VkBool32''],
        Elem ''commands'' [] None None [vkGetInstanceProcAddr],
        Elem ''extensions'' [] None None []]"

section \<open>Termination of the resolver\<close>

lemma defined_of_append: "defined_of (xs @ ys) = defined_of xs @ defined_of ys"
  by (induction xs rule: defined_of.induct) simp_all

lemma DEFINED_IDENTIFIERS_append:
  "DEFINED_IDENTIFIERS (h @ es) = DEFINED_IDENTIFIERS h @ defined_of es"
  by (simp add: DEFINED_IDENTIFIERS_def defined_of_append)

lemma finite_declared_names: "finite (declared_names root)"
  unfolding declared_names_def by (rule finite_set)

lemma pending_append_le: "pending root (h @ es) \<le> pending root h"
  unfolding pending_def
  by (rule card_mono) (auto simp: finite_declared_names DEFINED_IDENTIFIERS_append)

lemma pending_Define_less:
  assumes "n \<in> declared_names root" and "n \<notin> set (DEFINED_IDENTIFIERS h)"
  shows "pending root (h @ [Define n]) < pending root h"
  unfolding pending_def
proof (rule psubset_card_mono)
  show "finite (declared_names root - set (DEFINED_IDENTIFIERS h))"
    by (simp add: finite_declared_names)
  show "declared_names root - set (DEFINED_IDENTIFIERS (h @ [Define n]))
          \<subset> declared_names root - set (DEFINED_IDENTIFIERS h)"
    using assms by (auto simp: DEFINED_IDENTIFIERS_append)
qed

lemma remove_prefix_Vk: "remove_prefix (CHR ''V'' # CHR ''k'' # t) = t"
  by (simp add: remove_prefix_def startswith_def)

lemma first_filter_Some: "first (filter P xs) = Some x \<Longrightarrow> x \<in> set xs \<and> P x"
  by (induction xs) (auto simp: first_def split: if_splits)

lemma find_named_Some:
  assumes "find_named root category t = Inr (Some x)"
  shows "elem_get x ''name'' = Some (''Vk'' @ t)"
    and "category \<in> {''struct'', ''union''} \<Longrightarrow> t \<in> declared_names root"
proof -
  from assms obtain ts where ts: "filter_types root category = Inr ts"
    and f: "first (filter (\<lambda>s. elem_get s ''name'' = Some (''Vk'' @ t)) ts) = Some x"
    by (auto simp: find_named_def split: sum.splits)
  from first_filter_Some [OF f] have x: "x \<in> set ts" and n: "elem_get x ''name'' = Some (''Vk'' @ t)"
    by simp_all
  show "elem_get x ''name'' = Some (''Vk'' @ t)" by (rule n)
  from n have short: "short_name x = Some t"
    by (simp add: short_name_def startswith_def)
  assume "category \<in> {''struct'', ''union''}"
  then show "t \<in> declared_names root"
    using ts x short
    by (auto simp: declared_names_def map_filter_def intro!: image_eqI [where x = x])
qed

lemma struct_or_union_Some:
  assumes "struct_or_union s u = Some x"
    and "find_named root ''struct'' t = Inr s" and "find_named root ''union'' t = Inr u"
  shows "remove_prefix_opt (elem_get x ''name'') = Inr t \<and> t \<in> declared_names root"
proof -
  from assms(1) have "s = Some x \<or> u = Some x"
    by (auto simp: struct_or_union_def split: option.splits if_splits)
  then show ?thesis
    using find_named_Some [of root "''struct''" t x] find_named_Some [of root "''union''" t x] assms(2,3)
    by (auto simp: remove_prefix_opt_def remove_prefix_Vk)
qed

lemma resolver_total: "All parse_struct_or_enum_parse_dependencies_dom"
  apply (relation "inv_image (less_than <*lex*> less_than) resolver_measure")
  subgoal by (intro wf_inv_image wf_lex_prod wf_less_than)
  subgoal for root struct is_struct h n
    using pending_append_le [of root h "[Define n]"] pending_Define_less [of n root h]
    by (auto simp: resolver_measure_def)
  subgoal by (simp add: resolver_measure_def)
  subgoal for root mem members h t
    using pending_append_le [of root h "[Print (t @ '' was not found'')]"]
    by (auto simp: resolver_measure_def)
  subgoal for root mem members h t s u x
    using struct_or_union_Some [of s u x root t] by (auto simp: resolver_measure_def)
  subgoal for root mem members h t s u x
    using struct_or_union_Some [of s u x root t] by (auto simp: resolver_measure_def)
  subgoal for root mem members h t s u x
    using pending_append_le [of root h "fst (parse_struct_or_enum root x (u = None) h)"]
    by (auto simp: resolver_measure_def)
  done

termination parse_struct_or_enum
  by (rule resolver_total)

declare parse_struct_or_enum.simps [simp del]

section \<open>The resolver\<close>

lemma and_then_ok [simp]: "and_then (es, None) r = (es @ fst r, snd r)"
  by (cases r) (simp add: and_then_def)

lemma and_then_raised [simp]: "and_then (es, Some err) r = (es, Some err)"
  by (simp add: and_then_def)

lemma and_then_fst: "fst (and_then r1 r2) = (if snd r1 = None then fst r1 @ fst r2 else fst r1)"
  by (cases r1; cases "snd r1") auto

lemma and_then_snd: "snd (and_then r1 r2) = (if snd r1 = None then snd r2 else snd r1)"
  by (cases r1; cases "snd r1") auto



lemma parse_new:
  assumes "remove_prefix_opt (elem_get struct ''name'') = Inr n"
    and "n \<notin> set (DEFINED_IDENTIFIERS h)"
  shows "parse_struct_or_enum root struct is_struct h =
     (Define n #
      fst (and_then (parse_dependencies root (elem_iter ''member'' struct) (h @ [Define n]))
             (case struct_declaration n (elem_iter ''member'' struct) is_struct of
                Inl err \<Rightarrow> ([], Some err) | Inr text \<Rightarrow> ([Write text], None))),
      snd (and_then (parse_dependencies root (elem_iter ''member'' struct) (h @ [Define n]))
             (case struct_declaration n (elem_iter ''member'' struct) is_struct of
                Inl err \<Rightarrow> ([], Some err) | Inr text \<Rightarrow> ([Write text], None))))"
  using assms by (simp add: parse_struct_or_enum.simps)



text \<open>
  An induction principle for properties of the runs of the resolver: a property of
  (history, run) pairs that holds of the empty run and of a warning, is kept by
  sequencing, and passes from the run of the loop over the members of a structure to
  the run of \<^verbatim>\<open>parse_struct_or_enum\<close> on that structure, holds of every run. The
  structures reached are the one given and declared ones.
\<close>

lemma resolver_induct [consumes 0, case_names empty seq warning block]:
  assumes empty: "\<And>h err. G h ([], err)"
    and seq: "\<And>h r1 r2. G h r1 \<Longrightarrow> G (h @ fst r1) r2 \<Longrightarrow> G h (and_then r1 r2)"
    and warning: "\<And>h s. G h ([Print s], None)"
    and block: "\<And>h struct is_struct n.
        remove_prefix_opt (elem_get struct ''name'') = Inr n \<Longrightarrow>
        n \<notin> set (DEFINED_IDENTIFIERS h) \<Longrightarrow>
        n \<in> declared_names root \<or> struct = struct0 \<Longrightarrow>
        G (h @ [Define n]) (parse_dependencies root (elem_iter ''member'' struct) (h @ [Define n])) \<Longrightarrow>
        G h (parse_struct_or_enum root struct is_struct h)"
  shows "G h (parse_struct_or_enum root struct0 is_struct h)"
    and "G h (parse_dependencies root members h)"
proof -
  have "(root' = root \<longrightarrow>
          (\<forall>n. remove_prefix_opt (elem_get struct ''name'') = Inr n \<longrightarrow>
               n \<in> declared_names root \<or> struct = struct0) \<longrightarrow>
          G h (parse_struct_or_enum root struct is_struct h))"
    and "(root' = root \<longrightarrow> G h (parse_dependencies root members h))"
    for root' struct
  proof (induction root' struct is_struct h and root' members h
      rule: parse_struct_or_enum_parse_dependencies.induct)
    case (1 root' struct is_struct h)
    show ?case
    proof (intro impI)
      assume root: "root' = root"
        and known: "\<forall>n. remove_prefix_opt (elem_get struct ''name'') = Inr n \<longrightarrow>
               n \<in> declared_names root \<or> struct = struct0"
      show "G h (parse_struct_or_enum root struct is_struct h)"
      proof (cases "remove_prefix_opt (elem_get struct ''name'')")
        case (Inl err)
        then show ?thesis by (simp add: parse_struct_or_enum.simps empty)
      next
        case (Inr n)
        show ?thesis
        proof (cases "n \<in> set (DEFINED_IDENTIFIERS h)")
          case True
          with Inr show ?thesis by (simp add: parse_struct_or_enum.simps empty)
        next
          case False
          from "1.IH" [OF _ False] Inr root
          have "G (h @ [Define n])
              (parse_dependencies root (elem_iter ''member'' struct) (h @ [Define n]))"
            by simp
          with block [OF Inr False] known Inr show ?thesis by blast
        qed
      qed
    qed
  next
    case (2 root' h)
    show ?case by (simp add: empty)
  next
    case (3 root' mem members h)
    show ?case
    proof (intro impI)
      assume root: "root' = root"
      show "G h (parse_dependencies root (mem # members) h)"
      proof (cases "member_type mem")
        case (Inl err)
        then show ?thesis by (simp add: empty)
      next
        case (Inr t)
        show ?thesis
        proof (cases "t \<in> set (DEFINED_IDENTIFIERS h)")
          case True
          with Inr "3.IH"(1) root show ?thesis by simp
        next
          case False
          show ?thesis
          proof (cases "find_named root ''struct'' t")
            case (Inl err)
            with Inr False show ?thesis by (simp add: empty)
          next
            case s: (Inr s)
            show ?thesis
            proof (cases "find_named root ''union'' t")
              case (Inl err)
              with Inr False s show ?thesis by (simp add: empty)
            next
              case u: (Inr u)
              show ?thesis
              proof (cases "s = None \<and> u = None")
                case True
                from "3.IH"(2) [OF Inr False _ _ True] s u root
                have "G (h @ [Print (t @ '' was not found'')])
                    (parse_dependencies root members (h @ [Print (t @ '' was not found'')]))"
                  by simp
                from seq [of h "([Print (t @ '' was not found'')], None)", OF warning] this
                have "G h (and_then ([Print (t @ '' was not found'')], None)
                    (parse_dependencies root members (h @ [Print (t @ '' was not found'')])))"
                  by simp
                with Inr False s u True show ?thesis by simp
              next
                case neither: False
                show ?thesis
                proof (cases "struct_or_union s u")
                  case None
                  with Inr False s u neither show ?thesis by (auto simp: empty)
                next
                  case (Some d)
                  from struct_or_union_Some [OF Some s u]
                  have d: "remove_prefix_opt (elem_get d ''name'') = Inr t"
                    and t: "t \<in> declared_names root" by simp_all
                  from "3.IH"(3) [OF Inr False _ _ neither Some] s u root d t
                  have first: "G h (parse_struct_or_enum root d (u = None) h)" by simp
                  from "3.IH"(5) [OF Inr False _ _ neither Some] s u root
                  have "G (h @ fst (parse_struct_or_enum root d (u = None) h))
                      (parse_dependencies root members
                         (h @ fst (parse_struct_or_enum root d (u = None) h)))"
                    by simp
                  from seq [OF first this] Inr False s u neither Some show ?thesis
                    by auto
                qed
              qed
            qed
          qed
        qed
      qed
    qed
  qed
  from this [of root] show "G h (parse_struct_or_enum root struct0 is_struct h)"
    and "G h (parse_dependencies root members h)" by simp_all
qed

lemma fresh_append:
  assumes "fresh h es1" and "fresh (h @ es1) es2"
  shows "fresh h (es1 @ es2)"
  using assms by (auto simp: fresh_def defined_of_append DEFINED_IDENTIFIERS_append)


lemma resolver_fresh:
  "fresh h (fst (parse_struct_or_enum root struct is_struct h))"
  "fresh h (fst (parse_dependencies root members h))"
proof -
  let ?G = "\<lambda>h (r :: run). fresh h (fst r)"
  have empty: "\<And>h err. ?G h ([], err)" by (simp add: fresh_def)
  have seq: "\<And>h r1 r2. ?G h r1 \<Longrightarrow> ?G (h @ fst r1) r2 \<Longrightarrow> ?G h (and_then r1 r2)"
    by (simp add: and_then_fst fresh_append)
  have warning: "\<And>h s. ?G h ([Print s], None)" by (simp add: fresh_def)
  have block: "?G h (parse_struct_or_enum root struct is_struct h)"
    if "remove_prefix_opt (elem_get struct ''name'') = Inr n"
      and "n \<notin> set (DEFINED_IDENTIFIERS h)"
      and "?G (h @ [Define n]) (parse_dependencies root (elem_iter ''member'' struct) (h @ [Define n]))"
    for h struct is_struct n
    using that(2,3) unfolding parse_new [OF that(1,2)]
    by (auto simp: fresh_def and_then_fst defined_of_append DEFINED_IDENTIFIERS_append
        split: sum.splits)
  show "fresh h (fst (parse_struct_or_enum root struct is_struct h))"
    by (rule resolver_induct(1) [of ?G, OF empty seq warning block])
  show "fresh h (fst (parse_dependencies root members h))"
    by (rule resolver_induct(2) [of ?G, OF empty seq warning block])
qed






section \<open>Extension offsets\<close>






section \<open>The entry point\<close>

lemma parse_command_not_entry:
  assumes "\<not> is_entry_point c" and "parse_command hn c = Inr p"
  shows "\<exists>k cmd. p = Family_Member k cmd"
  using assms
  by (auto simp: parse_command_def is_entry_point_def
      split: option.splits list.splits sum.splits if_splits)

lemma group_commands_no_entry:
  assumes "\<forall>c \<in> set cs. \<not> is_entry_point c" and "group_commands hn cs (g, info) = Inr (g', info')"
  shows "info' = info"
  using assms
proof (induction cs arbitrary: g)
  case Nil
  then show ?case by simp
next
  case (Cons c cs)
  from Cons.prems(2) obtain p where p: "parse_command hn c = Inr p"
    and rest: "group_commands hn cs (record_command p (g, info)) = Inr (g', info')"
    by (auto split: sum.splits)
  from Cons.prems(1) p obtain k cmd where "p = Family_Member k cmd"
    using parse_command_not_entry [of c hn p] by auto
  with rest have "group_commands hn cs (add_to_group k cmd g, info) = Inr (g', info')" by simp
  with Cons.IH Cons.prems(1) show ?case by simp
qed

text \<open>
  C10. When no command of the document is named \<^verbatim>\<open>vkGetInstanceProcAddr\<close>, the command
  stage ends with an exception. If the loop over the commands itself raised nothing, the
  families have all been written and the exception is the \<^verbatim>\<open>TypeError\<close> of unpacking
  \<^verbatim>\<open>get_instance_proc_addr_info\<close>, which is still \<^verbatim>\<open>None\<close>.
\<close>

theorem missing_entry_point_raises:
  assumes "\<forall>c \<in> set (commands_of root). \<not> is_entry_point c"
  shows "snd (parse_commands root h) \<noteq> None
    \<and> (\<forall>groups info.
          group_commands (HANDLE_NAMES h) (commands_of root) ([], None) = Inr (groups, info) \<longrightarrow>
          elem_find root ''commands'' \<noteq> None \<longrightarrow>
          parse_commands root h
            = (Write ''\<newline># FUNCTIONS \<newline>\<newline>'' # map write_family groups, Some TypeError))"
proof (cases "elem_find root ''commands''")
  case None
  then show ?thesis by (simp add: parse_commands_def and_then_def)
next
  case (Some commands)
  then have cs: "commands_of root = echildren commands" by (simp add: commands_of_def)
  show ?thesis
  proof (cases "group_commands (HANDLE_NAMES h) (echildren commands) ([], None)")
    case (Inl err)
    with Some cs show ?thesis by (simp add: parse_commands_def and_then_def)
  next
    case (Inr st)
    obtain groups info where st: "st = (groups, info)" by (cases st)
    with Inr assms cs have "info = None"
      using group_commands_no_entry [of "echildren commands" "HANDLE_NAMES h" "[]" None groups info]
      by simp
    with Inr st Some cs show ?thesis by (simp add: parse_commands_def and_then_def)
  qed
qed


text \<open>
  A document whose only command is \<^verbatim>\<open>vkCreateInstance\<close>: the \<^verbatim>\<open>Loader\<close> family is
  written, then the stage raises.
\<close>

theorem missing_entry_point_raises_witness:
  "commands_of (commands_document [vkCreateInstance]) = [vkCreateInstance]
   \<and> \<not> is_entry_point vkCreateInstance
   \<and> parse_commands (commands_document [vkCreateInstance]) []
       = ([Write ''\<newline># FUNCTIONS \<newline>\<newline>'',
           Write (''LoaderFunctions = (\<newline>'' @
                  ''    (b'' @ apostrophe @ ''vkCreateInstance'' @ apostrophe @
                  '', Result, POINTER(InstanceCreateInfo), ),\<newline>'' @
                  '')\<newline>\<newline>'')],
          Some TypeError)"
proof -
  have no_entry: "\<forall>c \<in> set (commands_of (commands_document [vkCreateInstance])). \<not> is_entry_point c"
    by code_simp
  have groups: "group_commands (HANDLE_NAMES []) (commands_of (commands_document [vkCreateInstance])) ([], None)
      = Inr ([(''Loader'', [''    (b'' @ apostrophe @ ''vkCreateInstance'' @ apostrophe @
                  '', Result, POINTER(InstanceCreateInfo), ),\<newline>''])], None)"
    by code_simp
  have found: "elem_find (commands_document [vkCreateInstance]) ''commands'' \<noteq> None"
    by code_simp
  from missing_entry_point_raises [OF no_entry, of "[]"] groups found
  have "parse_commands (commands_document [vkCreateInstance]) []
      = (Write ''\<newline># FUNCTIONS \<newline>\<newline>'' #
         map write_family [(''Loader'', [''    (b'' @ apostrophe @ ''vkCreateInstance'' @ apostrophe @
                  '', Result, POINTER(InstanceCreateInfo), ),\<newline>''])], Some TypeError)"
    by blast
  moreover have "commands_of (commands_document [vkCreateInstance]) = [vkCreateInstance]"
    and "\<not> is_entry_point vkCreateInstance"
    by code_simp+
  ultimately show ?thesis
    by (simp add: write_family_def COMMAND_TEMPLATE_def)
qed

section \<open>Command families\<close>


















section \<open>Order of the declarations\<close>





lemma missing_run:
  "parse_structures_and_unions missing_document []
   = ([Write STRUCTURES, Define ''A'', Print ''Missing was not found'',
       Write (declaration_text ''structure'' ''A'' [(''m'', ''Missing'')])], None)"
  by code_simp




section \<open>Idempotent resolution\<close>







section \<open>Writing and defining\<close>















section \<open>Missing dependencies\<close>

lemma dependencies_missing:
  assumes "\<forall>m \<in> set members. \<exists>t. member_type m = Inr t
             \<and> (t \<in> set (DEFINED_IDENTIFIERS h) \<or> not_found root t)"
  shows "parse_dependencies root members h = (warnings (DEFINED_IDENTIFIERS h) members, None)"
  using assms
proof (induction members arbitrary: h)
  case Nil
  show ?case by (simp add: warnings_def member_types_def)
next
  case (Cons m members)
  from Cons.prems obtain t where t: "member_type m = Inr t"
    and known: "t \<in> set (DEFINED_IDENTIFIERS h) \<or> not_found root t"
    by auto
  have rest: "\<forall>m \<in> set members. \<exists>t. member_type m = Inr t
             \<and> (t \<in> set (DEFINED_IDENTIFIERS (h @ es)) \<or> not_found root t)" for es
    using Cons.prems by (auto simp: DEFINED_IDENTIFIERS_append)
  show ?case
  proof (cases "t \<in> set (DEFINED_IDENTIFIERS h)")
    case True
    with t Cons.IH [of h] rest [of "[]"] show ?thesis
      by (simp add: warnings_def member_types_def)
  next
    case False
    with known have "not_found root t" by simp
    with t False Cons.IH [of "h @ [Print (t @ '' was not found'')]"]
      rest [of "[Print (t @ '' was not found'')]"]
    show ?thesis
      by (simp add: warnings_def member_types_def not_found_def DEFINED_IDENTIFIERS_append)
  qed
qed

lemma member_field_type:
  assumes "parse_structure_member m = Inr (name, ctype)" and "member_type m = Inr t"
  shows "\<exists>k. ctype = (format_pointer ^^ k) t
           \<or> (\<exists>len. ctype = format_array ((format_pointer ^^ k) t) len)"
proof -
  from assms(2) obtain type_node where node: "elem_find m ''type'' = Some type_node"
    and t: "map_ctypes_opt (etext type_node) = Inr t"
    by (auto simp: member_type_def split: option.splits)
  define ptr_type where "ptr_type =
     (case etail type_node of None \<Rightarrow> t
      | Some tail \<Rightarrow> (format_pointer ^^ length (filter (\<lambda>c. c = CHR ''*'') tail)) t)"
  have ptr: "\<exists>k. ptr_type = (format_pointer ^^ k) t"
  proof (cases "etail type_node")
    case None
    then have "ptr_type = (format_pointer ^^ 0) t" by (simp add: ptr_type_def)
    then show ?thesis by blast
  next
    case (Some tail)
    then show ?thesis unfolding ptr_type_def by auto
  qed
  from assms(1) node t have "ctype = ptr_type \<or> (\<exists>len. ctype = format_array ptr_type len)"
    unfolding parse_structure_member_def ptr_type_def Let_def
    by (auto split: option.splits sum.splits if_splits)
  with ptr show ?thesis by auto
qed

text \<open>
  C8. A member whose base type is neither defined nor the name of a declared
  structure or union makes the loop over the members print the warning and go on with
  the other members: nothing is raised and nothing is defined for it. The member is
  still written, with a type made of that base type (pointers and an array around it).
  A structure all of whose members are of defined or of such missing types is resolved
  to the end: its name is defined, the warnings are printed and the declaration is
  written.
\<close>

theorem missing_dependency:
  assumes "member_type mem = Inr t" and "t \<notin> set (DEFINED_IDENTIFIERS h)"
    and "not_found root t"
  shows "parse_dependencies root (mem # members) h
      = (Print (t @ '' was not found'') #
           fst (parse_dependencies root members (h @ [Print (t @ '' was not found'')])),
         snd (parse_dependencies root members (h @ [Print (t @ '' was not found'')])))
    \<and> DEFINED_IDENTIFIERS (h @ [Print (t @ '' was not found'')]) = DEFINED_IDENTIFIERS h
    \<and> (\<forall>name ctype. parse_structure_member mem = Inr (name, ctype) \<longrightarrow>
          (\<exists>k. ctype = (format_pointer ^^ k) t
             \<or> (\<exists>len. ctype = format_array ((format_pointer ^^ k) t) len)))
    \<and> (\<forall>struct is_struct n written.
          remove_prefix_opt (elem_get struct ''name'') = Inr n \<longrightarrow>
          n \<notin> set (DEFINED_IDENTIFIERS h) \<longrightarrow>
          struct_declaration n (elem_iter ''member'' struct) is_struct = Inr written \<longrightarrow>
          (\<forall>m \<in> set (elem_iter ''member'' struct). \<exists>t. member_type m = Inr t
              \<and> (t \<in> set (DEFINED_IDENTIFIERS (h @ [Define n])) \<or> not_found root t)) \<longrightarrow>
          parse_struct_or_enum root struct is_struct h
            = (Define n #
               warnings (DEFINED_IDENTIFIERS (h @ [Define n])) (elem_iter ''member'' struct) @
               [Write written], None))"
proof -
  have "parse_dependencies root (mem # members) h
      = (Print (t @ '' was not found'') #
           fst (parse_dependencies root members (h @ [Print (t @ '' was not found'')])),
         snd (parse_dependencies root members (h @ [Print (t @ '' was not found'')])))"
    using assms by (simp add: not_found_def)
  moreover have "DEFINED_IDENTIFIERS (h @ [Print (t @ '' was not found'')]) = DEFINED_IDENTIFIERS h"
    by (simp add: DEFINED_IDENTIFIERS_append)
  moreover have "\<exists>k. ctype = (format_pointer ^^ k) t
             \<or> (\<exists>len. ctype = format_array ((format_pointer ^^ k) t) len)"
    if "parse_structure_member mem = Inr (name, ctype)" for name ctype
    using member_field_type [OF that assms(1)] .
  moreover have "parse_struct_or_enum root struct is_struct h
            = (Define n #
               warnings (DEFINED_IDENTIFIERS (h @ [Define n])) (elem_iter ''member'' struct) @
               [Write written], None)"
    if name: "remove_prefix_opt (elem_get struct ''name'') = Inr n"
      and new: "n \<notin> set (DEFINED_IDENTIFIERS h)"
      and decl: "struct_declaration n (elem_iter ''member'' struct) is_struct = Inr written"
      and members: "\<forall>m \<in> set (elem_iter ''member'' struct). \<exists>t. member_type m = Inr t
              \<and> (t \<in> set (DEFINED_IDENTIFIERS (h @ [Define n])) \<or> not_found root t)"
    for struct is_struct n written
    unfolding parse_new [OF name new] dependencies_missing [OF members] using decl by simp
  ultimately show ?thesis by blast
qed

lemma missing_struct_run:
  "parse_struct_or_enum missing_document (struct_elem ''VkA'' [member_elem ''VkMissing'' None ''m''])
     True []
   = ([Define ''A'', Print ''Missing was not found'',
       Write (declaration_text ''structure'' ''A'' [(''m'', ''Missing'')])], None)"
  by code_simp

text \<open>
  The structure \<^verbatim>\<open>A\<close> with a member \<^verbatim>\<open>m\<close> of the type \<^verbatim>\<open>VkMissing\<close>, declared nowhere: the
  warning is printed, then \<^verbatim>\<open>A\<close> is written with the field \<^verbatim>\<open>('m', Missing)\<close>.
\<close>

theorem missing_dependency_witness:
  "member_type (member_elem ''VkMissing'' None ''m'') = Inr ''Missing''
   \<and> ''Missing'' \<notin> set (DEFINED_IDENTIFIERS [Define ''A''])
   \<and> not_found missing_document ''Missing''
   \<and> parse_dependencies missing_document [member_elem ''VkMissing'' None ''m''] [Define ''A'']
     = ([Print ''Missing was not found''], None)
   \<and> parse_structure_member (member_elem ''VkMissing'' None ''m'') = Inr (''m'', ''Missing'')
   \<and> parse_struct_or_enum missing_document
       (struct_elem ''VkA'' [member_elem ''VkMissing'' None ''m'']) True []
     = ([Define ''A'', Print ''Missing was not found'',
         Write (declaration_text ''structure'' ''A'' [(''m'', ''Missing'')])], None)"
proof -
  have t: "member_type (member_elem ''VkMissing'' None ''m'') = Inr ''Missing''"
    and new: "''Missing'' \<notin> set (DEFINED_IDENTIFIERS [Define ''A''])"
    and absent: "not_found missing_document ''Missing''"
    and field: "parse_structure_member (member_elem ''VkMissing'' None ''m'') = Inr (''m'', ''Missing'')"
    by (code_simp, code_simp, (simp add: not_found_def, code_simp), code_simp)
  from missing_dependency [OF t new absent, of "[]"]
  have "parse_dependencies missing_document [member_elem ''VkMissing'' None ''m''] [Define ''A'']
     = ([Print ''Missing was not found''], None)"
    by simp
  with t new absent field missing_struct_run show ?thesis by simp
qed

section \<open>Termination\<close>

lemma resolver_defines_declared:
  "set (defined_of (fst (parse_struct_or_enum root struct is_struct h)))
     \<subseteq> declared_names root \<union> {n. remove_prefix_opt (elem_get struct ''name'') = Inr n}"
  "set (defined_of (fst (parse_dependencies root members h))) \<subseteq> declared_names root"
proof -
  let ?G = "\<lambda>struct0 (h :: event list) (r :: run). set (defined_of (fst r))
     \<subseteq> declared_names root \<union> {n. remove_prefix_opt (elem_get struct0 ''name'') = Inr n}"
  have empty: "\<And>h err. ?G struct0 h ([], err)" for struct0 by simp
  have seq: "\<And>h r1 r2. ?G struct0 h r1 \<Longrightarrow> ?G struct0 (h @ fst r1) r2 \<Longrightarrow> ?G struct0 h (and_then r1 r2)"
    for struct0
    by (auto simp: and_then_fst defined_of_append)
  have warning: "\<And>h s. ?G struct0 h ([Print s], None)" for struct0 by simp
  have block: "?G struct0 h (parse_struct_or_enum root struct is_struct h)"
    if "remove_prefix_opt (elem_get struct ''name'') = Inr n"
      and "n \<notin> set (DEFINED_IDENTIFIERS h)"
      and "n \<in> declared_names root \<or> struct = struct0"
      and "?G struct0 (h @ [Define n])
            (parse_dependencies root (elem_iter ''member'' struct) (h @ [Define n]))"
    for h struct is_struct n struct0
    using that(1,3,4) unfolding parse_new [OF that(1,2)]
    by (auto simp: and_then_fst defined_of_append split: sum.splits)
  show "set (defined_of (fst (parse_struct_or_enum root struct is_struct h)))
     \<subseteq> declared_names root \<union> {n. remove_prefix_opt (elem_get struct ''name'') = Inr n}"
    by (rule resolver_induct(1) [of "?G struct", OF empty seq warning block])
  have "?G (Elem [] [] None None []) h (parse_dependencies root members h)"
    by (rule resolver_induct(2) [of "?G (Elem [] [] None None [])", OF empty seq warning block])
  then show "set (defined_of (fst (parse_dependencies root members h))) \<subseteq> declared_names root"
    by (simp add: elem_get_def remove_prefix_opt_def)
qed

lemma fresh_length:
  assumes "fresh h es" and "set (defined_of es) \<subseteq> names" and "finite names"
  shows "length (defined_of es) \<le> card (names - set (DEFINED_IDENTIFIERS h))"
proof -
  from assms(1) have "length (defined_of es) = card (set (defined_of es))"
    by (simp add: fresh_def distinct_card)
  also have "\<dots> \<le> card (names - set (DEFINED_IDENTIFIERS h))"
    using assms by (intro card_mono) (auto simp: fresh_def)
  finally show ?thesis .
qed

text \<open>
  C9. Every call of \<^verbatim>\<open>parse_struct_or_enum\<close> and of its loop over the members terminates,
  whatever the document, the structure and the identifiers defined so far: the calls
  nested in one another go down in the well-founded order of \<open>resolver_measure\<close>. One
  call starts the resolution of at most one structure or union more than there are
  declared names still undefined; a structure reached again while it is being resolved
  is in \<^verbatim>\<open>DEFINED_IDENTIFIERS\<close> already and is not parsed again.
\<close>

theorem resolution_terminates:
  "parse_struct_or_enum_parse_dependencies_dom (Inl (root, struct, is_struct, h))
   \<and> parse_struct_or_enum_parse_dependencies_dom (Inr (root, members, h))
   \<and> length (defined_of (fst (parse_struct_or_enum root struct is_struct h))) \<le> Suc (pending root h)
   \<and> length (defined_of (fst (parse_dependencies root members h))) \<le> pending root h"
proof -
  let ?own = "{n. remove_prefix_opt (elem_get struct ''name'') = Inr n}"
  have own: "finite ?own" "card ?own \<le> 1"
    by (cases "remove_prefix_opt (elem_get struct ''name'')"; simp)+
  have "length (defined_of (fst (parse_struct_or_enum root struct is_struct h)))
      \<le> card ((declared_names root \<union> ?own) - set (DEFINED_IDENTIFIERS h))"
    using resolver_fresh(1) resolver_defines_declared(1) own(1)
    by (intro fresh_length) (simp_all add: finite_declared_names)
  also have "\<dots> \<le> card ((declared_names root - set (DEFINED_IDENTIFIERS h)) \<union> ?own)"
    using own(1) by (intro card_mono) (auto simp: finite_declared_names)
  also have "\<dots> \<le> pending root h + card ?own"
    unfolding pending_def by (rule card_Un_le)
  finally have "length (defined_of (fst (parse_struct_or_enum root struct is_struct h)))
      \<le> Suc (pending root h)"
    using own(2) by simp
  moreover have "length (defined_of (fst (parse_dependencies root members h))) \<le> pending root h"
    unfolding pending_def
    using resolver_fresh(2) resolver_defines_declared(2)
    by (intro fresh_length) (simp_all add: finite_declared_names)
  ultimately show ?thesis using resolver_total by blast
qed

lemma cyclic_struct_run:
  "parse_struct_or_enum cyclic_document (struct_elem ''VkA'' [member_elem ''VkB'' None ''b'']) True []
   = ([Define ''A'', Define ''B'',
       Write (declaration_text ''structure'' ''B'' [(''next'', ''POINTER(A)'')]),
       Write (declaration_text ''structure'' ''A'' [(''b'', ''B'')])], None)"
  by code_simp

text \<open>
  Two structures that refer to each other: the resolution of \<^verbatim>\<open>A\<close> parses \<^verbatim>\<open>B\<close>, which
  finds \<^verbatim>\<open>A\<close> defined, and ends after two resolutions.
\<close>

theorem resolution_terminates_witness:
  "parse_struct_or_enum_parse_dependencies_dom
     (Inl (cyclic_document, struct_elem ''VkA'' [member_elem ''VkB'' None ''b''], True, []))
   \<and> parse_struct_or_enum cyclic_document (struct_elem ''VkA'' [member_elem ''VkB'' None ''b'']) True []
     = ([Define ''A'', Define ''B'',
         Write (declaration_text ''structure'' ''B'' [(''next'', ''POINTER(A)'')]),
         Write (declaration_text ''structure'' ''A'' [(''b'', ''B'')])], None)
   \<and> length [''A'', ''B''] \<le> Suc (pending cyclic_document [])"
proof -
  from resolution_terminates [of cyclic_document
      "struct_elem ''VkA'' [member_elem ''VkB'' None ''b'']" True "[]"]
  have "parse_struct_or_enum_parse_dependencies_dom
     (Inl (cyclic_document, struct_elem ''VkA'' [member_elem ''VkB'' None ''b''], True, []))"
    and "length (defined_of (fst (parse_struct_or_enum cyclic_document
          (struct_elem ''VkA'' [member_elem ''VkB'' None ''b'']) True [])))
        \<le> Suc (pending cyclic_document [])"
    by blast+
  then show ?thesis unfolding cyclic_struct_run by simp
qed

section \<open>Order of the stages\<close>

lemma stage_headers:
  "\<exists>es. fst (parse_basetypes root) = Write ''\<newline># BASETYPES\<newline>\<newline>'' # es"
  "\<exists>es. fst (parse_handles root) = Write ''\<newline># HANDLES\<newline>\<newline>'' # es"
  "\<exists>es. fst (parse_flags root) = Write ''\<newline># FLAGS\<newline>\<newline>'' # es"
  "\<exists>es. fst (parse_enums root) = Write ''# ENUMS\<newline>\<newline>'' # es"
  "\<exists>es. fst (parse_funcpointers root) = Write ''\<newline># FUNC POINTERS\<newline>\<newline>'' # es"
  "\<exists>es. fst (parse_structures_and_unions root h) = Write ''\<newline># STRUCTURES\<newline>\<newline>'' # es"
  "\<exists>es. fst (parse_commands root h) = Write ''\<newline># FUNCTIONS \<newline>\<newline>'' # es"
  "\<exists>es. fst (parse_extensions root) = Write ''\<newline># EXTENSIONS \<newline>\<newline>'' # es"
  by (simp_all add: parse_basetypes_def parse_handles_def parse_flags_def parse_enums_def
      parse_funcpointers_def parse_structures_and_unions_def parse_commands_def
      parse_extensions_def)

lemma stages_events:
  "\<exists>rest. all_events ss h = fst (stages ss h) @ rest \<and> (snd (stages ss h) = None \<longrightarrow> rest = [])"
proof (induction ss arbitrary: h)
  case Nil
  show ?case by simp
next
  case (Cons s ss)
  have "\<exists>rest. all_events ss (h @ fst (s h)) = fst (stages ss (h @ fst (s h))) @ rest
      \<and> (snd (stages ss (h @ fst (s h))) = None \<longrightarrow> rest = [])"
    by (rule Cons)
  then obtain rest where
    rest: "all_events ss (h @ fst (s h)) = fst (stages ss (h @ fst (s h))) @ rest"
      "snd (stages ss (h @ fst (s h))) = None \<longrightarrow> rest = []"
    by (elim exE conjE)
  show ?case
  proof (cases "snd (s h) = None")
    case True
    have "all_events (s # ss) h = fst (stages (s # ss) h) @ rest"
      using True rest(1) by (simp add: and_then_fst)
    moreover have "snd (stages (s # ss) h) = None \<longrightarrow> rest = []"
      using True rest(2) by (simp add: and_then_snd)
    ultimately show ?thesis by (intro exI [of _ rest] conjI)
  next
    case False
    have "all_events (s # ss) h = fst (stages (s # ss) h) @ all_events ss (h @ fst (s h))"
      using False by (auto simp: and_then_fst)
    moreover have "snd (stages (s # ss) h) \<noteq> None"
      using False by (auto simp: and_then_snd)
    ultimately show ?thesis by (intro exI [of _ "all_events ss (h @ fst (s h))"]) auto
  qed
qed

lemma all_events_export:
  "all_events (export_stages root) []
     = before_commands root @ fst (parse_commands root (before_commands root)) @
       fst (parse_extensions root) @ fst add_post_initialization"
  by (simp add: export_stages_def before_commands_def before_structures_def)

text \<open>
  C2 (amended). The effects of the generation pass are, in this order, those of the
  imports, of the initialization, of the base types, of the handles, of the bitmasks, of
  the enumerations, of the function pointers, of the structures and unions, of the
  commands, of the extensions and of the post-initialization, each stage on the history
  the stages before it leave; a run that raises stops inside one of them. Each of the
  eight stages over the document starts with the write of its header.
\<close>

theorem stage_order:
  "(\<exists>rest.
      fst add_imports @ fst add_initialization @ fst (parse_basetypes root) @
      fst (parse_handles root) @ fst (parse_flags root) @ fst (parse_enums root) @
      fst (parse_funcpointers root) @
      fst (parse_structures_and_unions root (before_structures root)) @
      fst (parse_commands root (before_commands root)) @
      fst (parse_extensions root) @ fst add_post_initialization
      = fst (export root) @ rest
      \<and> (snd (export root) = None \<longrightarrow> rest = []))
   \<and> (\<exists>es. fst (parse_basetypes root) = Write ''\<newline># BASETYPES\<newline>\<newline>'' # es)
   \<and> (\<exists>es. fst (parse_handles root) = Write ''\<newline># HANDLES\<newline>\<newline>'' # es)
   \<and> (\<exists>es. fst (parse_flags root) = Write ''\<newline># FLAGS\<newline>\<newline>'' # es)
   \<and> (\<exists>es. fst (parse_enums root) = Write ''# ENUMS\<newline>\<newline>'' # es)
   \<and> (\<exists>es. fst (parse_funcpointers root) = Write ''\<newline># FUNC POINTERS\<newline>\<newline>'' # es)
   \<and> (\<exists>es. fst (parse_structures_and_unions root (before_structures root))
            = Write ''\<newline># STRUCTURES\<newline>\<newline>'' # es)
   \<and> (\<exists>es. fst (parse_commands root (before_commands root)) = Write ''\<newline># FUNCTIONS \<newline>\<newline>'' # es)
   \<and> (\<exists>es. fst (parse_extensions root) = Write ''\<newline># EXTENSIONS \<newline>\<newline>'' # es)"
proof -
  from stages_events [of "export_stages root" "[]"] all_events_export [of root]
  have "\<exists>rest.
      fst add_imports @ fst add_initialization @ fst (parse_basetypes root) @
      fst (parse_handles root) @ fst (parse_flags root) @ fst (parse_enums root) @
      fst (parse_funcpointers root) @
      fst (parse_structures_and_unions root (before_structures root)) @
      fst (parse_commands root (before_commands root)) @
      fst (parse_extensions root) @ fst add_post_initialization
      = fst (export root) @ rest
      \<and> (snd (export root) = None \<longrightarrow> rest = [])"
    by (simp add: export_def before_commands_def before_structures_def)
  with stage_headers(1-5,8) [of root] stage_headers(6) [of root "before_structures root"]
    stage_headers(7) [of root "before_commands root"]
  show ?thesis by (intro conjI)
qed

lemma order_run:
  "export order_document
   = ([Write IMPORTS_TEMPLATE,
       Write (''\<newline>\<newline>'' @ INITIALIZATION_TEMPLATE @ ''\<newline>''),
       Write ''\<newline># BASETYPES\<newline>\<newline>'',
       Write ''Bool32 = c_uint\<newline>'', Define ''Bool32'',
       Write ''\<newline>'',
       Write ''\<newline># HANDLES\<newline>\<newline>'',
       Write ''Instance = c_size_t\<newline>'', Handle ''Instance'', Define ''Instance'',
       Write ''\<newline>'',
       Write ''\<newline># FLAGS\<newline>\<newline>'',
       Write ''\<newline>'',
       Write ''# ENUMS\<newline>\<newline>'',
       Write ''\<newline># FUNC POINTERS\<newline>\<newline>'',
       Write ''\<newline>'',
       Write ''\<newline># STRUCTURES\<newline>\<newline>'',
       Write ''\<newline># FUNCTIONS \<newline>\<newline>'',
       Write (GET_INSTANCE_PROC_ADDR_TEMPLATE ''GetInstanceProcAddr'' ''fn_VoidFunction''
                ''Instance, c_char_p, ''),
       Write ''\<newline># EXTENSIONS \<newline>\<newline>'',
       Write (''\<newline>\<newline>'' @ POST_INITIALIZATION_TEMPLATE @ ''\<newline>'')], None)"
  by code_simp

text \<open>
  A run that raises nothing: its effects are those of all the stages, the base types
  before the handles.
\<close>

theorem stage_order_witness:
  "snd (export order_document) = None
   \<and> fst add_imports @ fst add_initialization @ fst (parse_basetypes order_document) @
     fst (parse_handles order_document) @ fst (parse_flags order_document) @
     fst (parse_enums order_document) @ fst (parse_funcpointers order_document) @
     fst (parse_structures_and_unions order_document (before_structures order_document)) @
     fst (parse_commands order_document (before_commands order_document)) @
     fst (parse_extensions order_document) @ fst add_post_initialization
     = fst (export order_document)
   \<and> fst (parse_basetypes order_document)
     = [Write ''\<newline># BASETYPES\<newline>\<newline>'', Write ''Bool32 = c_uint\<newline>'', Define ''Bool32'',
        Write ''\<newline>'']
   \<and> fst (parse_handles order_document)
     = [Write ''\<newline># HANDLES\<newline>\<newline>'', Write ''Instance = c_size_t\<newline>'', Handle ''Instance'',
        Define ''Instance'', Write ''\<newline>'']"
proof -
  have ok: "snd (export order_document) = None"
    unfolding order_run by simp
  from stage_order [of order_document] ok
  have "fst add_imports @ fst add_initialization @ fst (parse_basetypes order_document) @
     fst (parse_handles order_document) @ fst (parse_flags order_document) @
     fst (parse_enums order_document) @ fst (parse_funcpointers order_document) @
     fst (parse_structures_and_unions order_document (before_structures order_document)) @
     fst (parse_commands order_document (before_commands order_document)) @
     fst (parse_extensions order_document) @ fst add_post_initialization
     = fst (export order_document)"
    by auto
  moreover have "fst (parse_basetypes order_document)
     = [Write ''\<newline># BASETYPES\<newline>\<newline>'', Write ''Bool32 = c_uint\<newline>'', Define ''Bool32'',
        Write ''\<newline>'']"
    and "fst (parse_handles order_document)
     = [Write ''\<newline># HANDLES\<newline>\<newline>'', Write ''Instance = c_size_t\<newline>'', Handle ''Instance'',
        Define ''Instance'', Write ''\<newline>'']"
    by code_simp+
  ultimately show ?thesis using ok by (intro conjI)
qed

text \<open>
  C2 as stated fails: in the run on a document that declares the handle \<^verbatim>\<open>VkInstance\<close>
  before the base type \<^verbatim>\<open>VkBool32\<close>, the base types are written first, the handles after
  them.
\<close>

theorem stage_order_counterexample:
  "export order_document
   = ([Write IMPORTS_TEMPLATE,
       Write (''\<newline>\<newline>'' @ INITIALIZATION_TEMPLATE @ ''\<newline>''),
       Write ''\<newline># BASETYPES\<newline>\<newline>'',
       Write ''Bool32 = c_uint\<newline>'', Define ''Bool32'',
       Write ''\<newline>'',
       Write ''\<newline># HANDLES\<newline>\<newline>'',
       Write ''Instance = c_size_t\<newline>'', Handle ''Instance'', Define ''Instance'',
       Write ''\<newline>'',
       Write ''\<newline># FLAGS\<newline>\<newline>'',
       Write ''\<newline>'',
       Write ''# ENUMS\<newline>\<newline>'',
       Write ''\<newline># FUNC POINTERS\<newline>\<newline>'',
       Write ''\<newline>'',
       Write ''\<newline># STRUCTURES\<newline>\<newline>'',
       Write ''\<newline># FUNCTIONS \<newline>\<newline>'',
       Write (GET_INSTANCE_PROC_ADDR_TEMPLATE ''GetInstanceProcAddr'' ''fn_VoidFunction''
                ''Instance, c_char_p, ''),
       Write ''\<newline># EXTENSIONS \<newline>\<newline>'',
       Write (''\<newline>\<newline>'' @ POST_INITIALIZATION_TEMPLATE @ ''\<newline>'')], None)"
  by (rule order_run)

section \<open>Determinism\<close>












end
